theory Spec2Isabelle
  imports Complex_Main "HOL-Library.AList"
begin

section \<open>The account classes (classes.py)\<close>

text \<open>
  Balances, amounts and credit limits are Python numbers: the floats that \<open>float\<close>
  returns, and the integer \<open>0\<close> that the constructors take as the default of a balance
  and of a credit limit.  Their type is left abstract here: it is a type variable \<open>'a\<close>
  on which only the operations the source applies are available (\<open>+\<close>, \<open>-\<close>, the
  comparison \<open>\<le>\<close> and the literal \<open>0\<close>, which is that default), and no law of
  arithmetic is assumed about them.  What is proved for \<open>'a\<close> therefore holds for the
  rounding arithmetic of floats as well as for exact numbers.  The counter
  \<open>monthly_withdrawals\<close> is a Python integer and is an \<open>int\<close>.

  An account object is an instance of one of the two subclasses of \<open>Account\<close>; the
  system never instantiates the base class itself.
\<close>

datatype 'a account =
    SavingsAccount (account_id: string) (acct_customer_id: string) (balance: 'a)
      (monthly_withdrawals: int)
  | CheckingAccount (account_id: string) (acct_customer_id: string) (balance: 'a)
      (credit_limit: 'a)

text \<open>Assignments to the attributes \<open>balance\<close> and \<open>monthly_withdrawals\<close> of an object.\<close>

primrec set_balance :: "'a \<Rightarrow> 'a account \<Rightarrow> 'a account" where
  "set_balance b (SavingsAccount i c _ m) = SavingsAccount i c b m"
| "set_balance b (CheckingAccount i c _ l) = CheckingAccount i c b l"

primrec set_monthly_withdrawals :: "int \<Rightarrow> 'a account \<Rightarrow> 'a account" where
  "set_monthly_withdrawals m (SavingsAccount i c b _) = SavingsAccount i c b m"
| "set_monthly_withdrawals m (CheckingAccount i c b l) = CheckingAccount i c b l"

primrec isSavings :: "'a account \<Rightarrow> bool" where
  "isSavings (SavingsAccount _ _ _ _) = True"
| "isSavings (CheckingAccount _ _ _ _) = False"

text \<open>
  Methods mutate the object they are called on, and \<open>transfer\<close> mutates a second object
  that may be the same one.  Objects therefore live in an object store, a function from
  references to objects, and a method takes the store and the reference \<open>self\<close> and
  returns the new store with its return value.  The messages a method prints are not
  part of the model.
\<close>

type_synonym ('r, 'a) objects = "'r \<Rightarrow> 'a account"

text \<open>\<open>Account.deposit\<close>: \<^verbatim>\<open>self.balance += amount; return True\<close>.\<close>

definition deposit ::
  "('r, 'a::plus) objects \<Rightarrow> 'r \<Rightarrow> 'a \<Rightarrow> ('r, 'a) objects \<times> bool" where
  "deposit h self amount =
     (h(self := set_balance (balance (h self) + amount) (h self)), True)"

text \<open>\<open>SavingsAccount.withdrawal\<close> and \<open>CheckingAccount.withdrawal\<close>.\<close>

definition withdrawal ::
  "('r, 'a::{plus,minus,ord}) objects \<Rightarrow> 'r \<Rightarrow> 'a \<Rightarrow> ('r, 'a) objects \<times> bool" where
  "withdrawal h self amount =
     (case h self of
        SavingsAccount _ _ _ _ \<Rightarrow>
          if monthly_withdrawals (h self) > 0 then
            let h1 = h(self := set_balance (balance (h self) - amount) (h self));
                h2 = h1(self := set_monthly_withdrawals (monthly_withdrawals (h1 self) - 1) (h1 self))
            in (h2, True)
          else (h, False)
      | CheckingAccount _ _ _ _ \<Rightarrow>
          if balance (h self) + credit_limit (h self) \<ge> amount then
            (h(self := set_balance (balance (h self) - amount) (h self)), True)
          else (h, False))"

text \<open>
  \<open>SavingsAccount.transfer\<close> and \<open>CheckingAccount.transfer\<close>.  The statements run in
  the source's order: the debit of \<open>self\<close>, the call of \<open>recipient_account.deposit\<close>,
  and for a savings account the decrement of the counter afterwards.
\<close>

definition transfer ::
  "('r, 'a::{plus,minus,ord}) objects \<Rightarrow> 'r \<Rightarrow> 'a \<Rightarrow> 'r \<Rightarrow> ('r, 'a) objects \<times> bool" where
  "transfer h self amount recipient_account =
     (case h self of
        SavingsAccount _ _ _ _ \<Rightarrow>
          if monthly_withdrawals (h self) > 0 then
            let h1 = h(self := set_balance (balance (h self) - amount) (h self));
                h2 = fst (deposit h1 recipient_account amount);
                h3 = h2(self := set_monthly_withdrawals (monthly_withdrawals (h2 self) - 1) (h2 self))
            in (h3, True)
          else (h, False)
      | CheckingAccount _ _ _ _ \<Rightarrow>
          if balance (h self) + credit_limit (h self) \<ge> amount then
            let h1 = h(self := set_balance (balance (h self) - amount) (h self));
                h2 = fst (deposit h1 recipient_account amount)
            in (h2, True)
          else (h, False))"

text \<open>\<open>Account.show_balance\<close> prints these four values; the model returns them.\<close>

definition show_balance :: "'a::{zero,ord} account \<Rightarrow> string \<times> string \<times> 'a \<times> string" where
  "show_balance a =
     (account_id a, acct_customer_id a, balance a,
      if balance a < 0 then ''Overdrawn'' else ''Active'')"

section \<open>The bank system (main.py)\<close>

subsection \<open>Data\<close>

record customer =
  customer_id :: string
  name :: string
  age :: int
  login :: string
  password :: string

text \<open>
  A transaction is a tuple of four components, or of five when it is a transfer and
  carries the recipient's account id.
\<close>

datatype 'a transaction =
    Tx4 (transaction_id: string) (tx_amount: 'a) (transaction_type: string)
      (transaction_status: string)
  | Tx5 (transaction_id: string) (tx_recipient: string) (tx_amount: 'a)
      (transaction_type: string) (transaction_status: string)

text \<open>
  A Python dictionary keeps its keys in insertion order, and \<open>create_account\<close> and
  \<open>save_data\<close> iterate over dictionaries.  A dictionary is therefore an association
  list: \<open>map_of d k\<close> is the lookup, \<open>AList.update k v d\<close> the assignment
  \<^verbatim>\<open>d[k] = v\<close> (in place for a key that is present, at the end for a new one),
  \<open>AList.delete k d\<close> the statement \<^verbatim>\<open>del d[k]\<close> and \<open>length d\<close> is \<^verbatim>\<open>len(d)\<close>.
\<close>

record 'a bank_system =
  customers :: "(string \<times> customer) list"
  accounts :: "(string \<times> 'a account) list"
  transactions :: "(string \<times> 'a transaction list) list"
  current_user :: "string option"
  admin_password :: string

definition BankSystem :: "'a bank_system" where
  "BankSystem =
     \<lparr>customers = [], accounts = [], transactions = [], current_user = None,
      admin_password = ''admin''\<rparr>"

text \<open>
  The three files under \<open>data/\<close>; \<open>None\<close> is a file that does not exist.  The directory
  itself is taken to exist.
\<close>

record files =
  customers_txt :: "string option"
  accounts_txt :: "string option"
  accountsTransactions_txt :: "string option"

text \<open>
  What the source calls from Python's library and is not code of the repository is a
  parameter of the model: \<open>float(s)\<close> and \<open>int(s)\<close>, which raise \<open>ValueError\<close> (here
  \<open>None\<close>) on a string that is not a number, the text \<open>str(x)\<close> of a number as an
  f-string prints it (\<open>0\<close> for the integer default, \<open>0.0\<close> for the float that
  \<open>float\<close> reads from either), and \<open>hashlib.sha256(s.encode()).hexdigest()\<close>.
\<close>

record 'a python =
  float_of :: "string \<Rightarrow> 'a option"
  int_of :: "string \<Rightarrow> int option"
  str_of_float :: "'a \<Rightarrow> string"
  sha256_hexdigest :: "string \<Rightarrow> string"

datatype error =
    PleaseLogin | AccountIdNotFound | NotAuthorized | RecipientNotFound | InvalidChoice
  | NoTransactionsFound | CustomerIdNotFound | AgeRequirement | InvalidAccountType
  | LoginNotFound | IncorrectPassword | IncorrectAdminPassword
  | KeyError | ValueError | FileNotFoundError

subsection \<open>Text of integers\<close>

text \<open>\<open>str(n)\<close> of a Python integer: its decimal digits, after a minus sign if negative.\<close>

definition digit_char :: "nat \<Rightarrow> char" where
  "digit_char d = ''0123456789'' ! d"

function str_nat :: "nat \<Rightarrow> string" where
  "str_nat n = (if n < 10 then [digit_char n] else str_nat (n div 10) @ [digit_char (n mod 10)])"
  by pat_completeness auto
termination
  by (relation "measure id") auto

declare str_nat.simps [simp del]

definition str_int :: "int \<Rightarrow> string" where
  "str_int i = (if i < 0 then CHR ''-'' # str_nat (nat (- i)) else str_nat (nat i))"

subsection \<open>Session\<close>

definition bank_login :: "'a python \<Rightarrow> 'a bank_system \<Rightarrow> string \<Rightarrow> string \<Rightarrow> (error + unit) \<times> 'a bank_system" where
  "bank_login py st lg pw =
     (case map_of (customers st) lg of
        Some cust \<Rightarrow>
          if password cust = sha256_hexdigest py pw
          then (Inr (), st\<lparr>current_user := Some lg\<rparr>)
          else (Inl IncorrectPassword, st)
      | None \<Rightarrow> (Inl LoginNotFound, st))"

definition admin_login :: "'a bank_system \<Rightarrow> string \<Rightarrow> (error + unit) \<times> 'a bank_system" where
  "admin_login st pw =
     (if pw = admin_password st then (Inr (), st\<lparr>current_user := Some ''admin''\<rparr>)
      else (Inl IncorrectAdminPassword, st))"

definition logout :: "'a bank_system \<Rightarrow> 'a bank_system" where
  "logout st = st\<lparr>current_user := None\<rparr>"

text \<open>
  The ownership test of the account-scoped operations:
  \<^verbatim>\<open>self.current_user != "admin" and account.customer_id != self.customers[self.current_user].customer_id\<close>.
  It is evaluated only when somebody is logged in; the dictionary lookup raises
  \<open>KeyError\<close> when the session's login is not a key of \<open>customers\<close>.
\<close>

definition not_authorized :: "'a bank_system \<Rightarrow> string \<Rightarrow> 'a account \<Rightarrow> error + bool" where
  "not_authorized st user account =
     (if user \<noteq> ''admin'' then
        (case map_of (customers st) user of
           None \<Rightarrow> Inl KeyError
         | Some cust \<Rightarrow> Inr (acct_customer_id account \<noteq> customer_id cust))
      else Inr False)"

subsection \<open>Customers and accounts\<close>

definition append_line :: "string option \<Rightarrow> string \<Rightarrow> string option" where
  "append_line f l = (case f of None \<Rightarrow> Some l | Some content \<Rightarrow> Some (content @ l))"

definition join_fields :: "string list \<Rightarrow> string" where
  "join_fields fs = concat (case fs of [] \<Rightarrow> [] | f # rest \<Rightarrow> f # map (\<lambda>g. CHR '','' # g) rest)"

text \<open>An f-string \<^verbatim>\<open>f"{a},{b},{c}\n"\<close> is the fields joined by commas and a newline.\<close>

definition record_line :: "string list \<Rightarrow> string" where
  "record_line fs = join_fields fs @ [CHR 0x0A]"

definition customer_line :: "customer \<Rightarrow> string" where
  "customer_line c =
     record_line [customer_id c, name c, str_int (age c), login c, password c]"

definition create_customer ::
  "'a python \<Rightarrow> 'a bank_system \<times> files \<Rightarrow> string \<Rightarrow> int \<Rightarrow> string \<Rightarrow> string \<Rightarrow> 'a bank_system \<times> files" where
  "create_customer py sf nm ag lg pw =
     (case sf of (st, fs) \<Rightarrow>
        let cid = str_nat (length (customers st) + 1);
            hashed_password = sha256_hexdigest py pw;
            cust = \<lparr>customer_id = cid, name = nm, age = ag, login = lg, password = hashed_password\<rparr>
        in (st\<lparr>customers := AList.update lg cust (customers st)\<rparr>,
            fs\<lparr>customers_txt := append_line (customers_txt fs) (customer_line cust)\<rparr>))"

text \<open>
  The search loop of \<open>create_account\<close> runs over all customers without a \<open>break\<close>, so
  \<open>found_customer\<close> is the last one whose \<open>customer_id\<close> matches.
\<close>

definition find_customer :: "(string \<times> customer) list \<Rightarrow> string \<Rightarrow> customer option" where
  "find_customer cs cid =
     foldl (\<lambda>found kc. if cid = customer_id (snd kc) then Some (snd kc) else found) None cs"

definition create_account ::
  "'a::zero bank_system \<Rightarrow> string \<Rightarrow> string \<Rightarrow> (error + 'a account) \<times> 'a bank_system" where
  "create_account st cid account_type =
     (case find_customer (customers st) cid of
        None \<Rightarrow> (Inl CustomerIdNotFound, st)
      | Some found_customer \<Rightarrow>
          let aid = str_nat (length (accounts st) + 1) in
          if (account_type = ''Savings'' \<and> age found_customer < 14) \<or>
             (account_type = ''Checking'' \<and> age found_customer < 18)
          then (Inl AgeRequirement, st)
          else if account_type = ''Savings'' then
            let new_account = SavingsAccount aid cid 0 1
            in (Inr new_account, st\<lparr>accounts := AList.update aid new_account (accounts st)\<rparr>)
          else if account_type = ''Checking'' then
            let new_account = CheckingAccount aid cid 0 0
            in (Inr new_account, st\<lparr>accounts := AList.update aid new_account (accounts st)\<rparr>)
          else (Inl InvalidAccountType, st))"

definition delete_account :: "'a bank_system \<Rightarrow> string \<Rightarrow> (error + unit) \<times> 'a bank_system" where
  "delete_account st aid =
     (if map_of (accounts st) aid = None then (Inl AccountIdNotFound, st)
      else
        let st1 = st\<lparr>accounts := AList.delete aid (accounts st)\<rparr>;
            st2 = (if map_of (transactions st1) aid \<noteq> None
                   then st1\<lparr>transactions := AList.delete aid (transactions st1)\<rparr> else st1)
        in (Inr (), st2))"

subsection \<open>Account-scoped operations\<close>

definition view_transactions ::
  "'a bank_system \<Rightarrow> string \<Rightarrow> (error + 'a transaction list) \<times> 'a bank_system" where
  "view_transactions st aid =
     (case current_user st of
        None \<Rightarrow> (Inl PleaseLogin, st)
      | Some user \<Rightarrow>
          (case map_of (accounts st) aid of
             None \<Rightarrow> (Inl AccountIdNotFound, st)
           | Some account \<Rightarrow>
               (case not_authorized st user account of
                  Inl e \<Rightarrow> (Inl e, st)
                | Inr True \<Rightarrow> (Inl NotAuthorized, st)
                | Inr False \<Rightarrow>
                    (case map_of (transactions st) aid of
                       None \<Rightarrow> (Inl NoTransactionsFound, st)
                     | Some txs \<Rightarrow> (Inr txs, st)))))"

definition check_balance ::
  "'a::{zero,ord} bank_system \<Rightarrow> string \<Rightarrow> (error + string \<times> string \<times> 'a \<times> string) \<times> 'a bank_system" where
  "check_balance st aid =
     (case current_user st of
        None \<Rightarrow> (Inl PleaseLogin, st)
      | Some user \<Rightarrow>
          (case map_of (accounts st) aid of
             None \<Rightarrow> (Inl AccountIdNotFound, st)
           | Some account \<Rightarrow>
               (case not_authorized st user account of
                  Inl e \<Rightarrow> (Inl e, st)
                | Inr True \<Rightarrow> (Inl NotAuthorized, st)
                | Inr False \<Rightarrow> (Inr (show_balance account), st))))"

text \<open>
  The values of the dictionary \<open>accounts\<close> are the account objects.  Every entry holds
  an object of its own (each is built by a constructor call at the assignment that
  stores it), so the key of an entry serves as the reference to its object:
  \<open>objects_of\<close> reads the dictionary as an object store for the methods of the account
  classes, and \<open>store_objects\<close> is the dictionary with its objects as the methods left
  them.
\<close>

definition objects_of :: "(string \<times> 'a account) list \<Rightarrow> (string, 'a) objects" where
  "objects_of d = (\<lambda>k. the (map_of d k))"

definition store_objects ::
  "(string \<times> 'a account) list \<Rightarrow> (string, 'a) objects \<Rightarrow> (string \<times> 'a account) list" where
  "store_objects d h = map (\<lambda>kv. (fst kv, h (fst kv))) d"

text \<open>\<^verbatim>\<open>self.transactions.get(account_id, [])\<close> and \<^verbatim>\<open>self.transactions.setdefault(account_id, []).append(t)\<close>.\<close>

definition get_transactions :: "(string \<times> 'a transaction list) list \<Rightarrow> string \<Rightarrow> 'a transaction list" where
  "get_transactions txs aid = (case map_of txs aid of None \<Rightarrow> [] | Some l \<Rightarrow> l)"

definition log_transaction ::
  "string \<Rightarrow> 'a transaction \<Rightarrow> (string \<times> 'a transaction list) list \<Rightarrow> (string \<times> 'a transaction list) list" where
  "log_transaction aid t txs = AList.update aid (get_transactions txs aid @ [t]) txs"

text \<open>
  What the user types at the prompts of \<open>perform_operations\<close>: the menu choice, and,
  where the chosen operation asks for them, the recipient's account id and the amount.
\<close>

record op_input =
  choice_input :: string
  recipient_input :: string
  amount_input :: string

text \<open>
  The menu of \<open>perform_operations\<close>.  The source writes it out twice, once under
  \<^verbatim>\<open>isinstance(account, SavingsAccount)\<close> and once under
  \<^verbatim>\<open>isinstance(account, CheckingAccount)\<close>, the same statements in both; the
  methods called dispatch on the class of the object.  The result \<open>Inr ok\<close> is the
  return value of the method that ran.  A \<open>ValueError\<close> of \<open>float\<close> leaves the
  function before anything has been changed.
\<close>

definition operations ::
  "'a::{plus,minus,ord} python \<Rightarrow> 'a bank_system \<Rightarrow> string \<Rightarrow> string \<Rightarrow> op_input \<Rightarrow>
     (error + bool) \<times> 'a bank_system" where
  "operations py st aid tid inp =
     (if choice_input inp = ''1'' then
        (case float_of py (amount_input inp) of
           None \<Rightarrow> (Inl ValueError, st)
         | Some amount \<Rightarrow>
             (case deposit (objects_of (accounts st)) aid amount of
                (h, ok) \<Rightarrow>
                  if ok then
                    (Inr True, st\<lparr>accounts := store_objects (accounts st) h,
                       transactions := log_transaction aid (Tx4 tid amount ''deposit'' ''COMPLETE'') (transactions st)\<rparr>)
                  else
                    (Inr False, st\<lparr>accounts := store_objects (accounts st) h,
                       transactions := log_transaction aid (Tx4 tid amount ''deposit'' ''ABORTED'') (transactions st)\<rparr>)))
      else if choice_input inp = ''2'' then
        (case float_of py (amount_input inp) of
           None \<Rightarrow> (Inl ValueError, st)
         | Some amount \<Rightarrow>
             (case withdrawal (objects_of (accounts st)) aid amount of
                (h, ok) \<Rightarrow>
                  if ok then
                    (Inr True, st\<lparr>accounts := store_objects (accounts st) h,
                       transactions := log_transaction aid (Tx4 tid amount ''withdrawal'' ''COMPLETE'') (transactions st)\<rparr>)
                  else
                    (Inr False, st\<lparr>accounts := store_objects (accounts st) h,
                       transactions := log_transaction aid (Tx4 tid amount ''withdrawal'' ''ABORTED'') (transactions st)\<rparr>)))
      else if choice_input inp = ''3'' then
        (if map_of (accounts st) (recipient_input inp) = None then (Inl RecipientNotFound, st)
         else
           (case float_of py (amount_input inp) of
              None \<Rightarrow> (Inl ValueError, st)
            | Some amount \<Rightarrow>
                (case transfer (objects_of (accounts st)) aid amount (recipient_input inp) of
                   (h, ok) \<Rightarrow>
                     if ok then
                       (Inr True, st\<lparr>accounts := store_objects (accounts st) h,
                          transactions := log_transaction aid
                            (Tx5 tid (recipient_input inp) amount ''transfer'' ''COMPLETE'') (transactions st)\<rparr>)
                     else
                       (Inr False, st\<lparr>accounts := store_objects (accounts st) h,
                          transactions := log_transaction aid
                            (Tx5 tid (recipient_input inp) amount ''transfer'' ''ABORTED'') (transactions st)\<rparr>))))
      else (Inl InvalidChoice, st))"

definition perform_operations ::
  "'a::{plus,minus,ord} python \<Rightarrow> 'a bank_system \<Rightarrow> string \<Rightarrow> op_input \<Rightarrow>
     (error + bool) \<times> 'a bank_system" where
  "perform_operations py st aid inp =
     (case current_user st of
        None \<Rightarrow> (Inl PleaseLogin, st)
      | Some user \<Rightarrow>
          (case map_of (accounts st) aid of
             None \<Rightarrow> (Inl AccountIdNotFound, st)
           | Some account \<Rightarrow>
               (case not_authorized st user account of
                  Inl e \<Rightarrow> (Inl e, st)
                | Inr True \<Rightarrow> (Inl NotAuthorized, st)
                | Inr False \<Rightarrow>
                    let tid = str_nat (length (get_transactions (transactions st) aid) + 1) in
                    if isSavings account then operations py st aid tid inp
                    else operations py st aid tid inp)))"

subsection \<open>Sequences of requests\<close>

datatype request =
    Login string string
  | AdminLogin string
  | Logout
  | CreateCustomer string int string string
  | CreateAccount string string
  | ViewTransactions string
  | PerformOperations string op_input
  | CheckBalance string
  | DeleteAccount string

fun step ::
  "'a::{zero,plus,minus,ord} python \<Rightarrow> 'a bank_system \<times> files \<Rightarrow> request \<Rightarrow> 'a bank_system \<times> files" where
  "step py (st, fs) (Login lg pw) = (snd (bank_login py st lg pw), fs)"
| "step py (st, fs) (AdminLogin pw) = (snd (admin_login st pw), fs)"
| "step py (st, fs) Logout = (logout st, fs)"
| "step py (st, fs) (CreateCustomer nm ag lg pw) = create_customer py (st, fs) nm ag lg pw"
| "step py (st, fs) (CreateAccount cid ty) = (snd (create_account st cid ty), fs)"
| "step py (st, fs) (ViewTransactions aid) = (snd (view_transactions st aid), fs)"
| "step py (st, fs) (PerformOperations aid inp) = (snd (perform_operations py st aid inp), fs)"
| "step py (st, fs) (CheckBalance aid) = (snd (check_balance st aid), fs)"
| "step py (st, fs) (DeleteAccount aid) = (snd (delete_account st aid), fs)"

definition run ::
  "'a::{zero,plus,minus,ord} python \<Rightarrow> 'a bank_system \<times> files \<Rightarrow> request list \<Rightarrow> 'a bank_system \<times> files" where
  "run py sf reqs = foldl (step py) sf reqs"

subsection \<open>Reading the data files\<close>

text \<open>
  A file is the text that was written to it.  Strings are lists of 8-bit characters,
  read as the code points 0 to 255.  Opening a file for reading in text mode turns
  \<open>\r\n\<close> and \<open>\r\<close> into \<open>\n\<close>; iterating over it yields its lines, each with its
  newline, and a last line without one if the text does not end in a newline.
\<close>

fun universal_newlines :: "string \<Rightarrow> string" where
  "universal_newlines [] = []"
| "universal_newlines [c] = (if c = CHR 0x0D then [CHR 0x0A] else [c])"
| "universal_newlines (c # d # ds) =
     (if c = CHR 0x0D \<and> d = CHR 0x0A then CHR 0x0A # universal_newlines ds
      else if c = CHR 0x0D then CHR 0x0A # universal_newlines (d # ds)
      else c # universal_newlines (d # ds))"

fun file_lines :: "string \<Rightarrow> string list" where
  "file_lines [] = []"
| "file_lines (c # cs) =
     (if c = CHR 0x0A then [c] # file_lines cs
      else (case file_lines cs of [] \<Rightarrow> [[c]] | l # ls \<Rightarrow> (c # l) # ls))"

text \<open>\<open>str.isspace\<close> on the code points 0 to 255, and \<open>s.strip()\<close>.\<close>

definition is_space :: "char \<Rightarrow> bool" where
  "is_space c \<longleftrightarrow>
     c \<in> set [CHR 0x09, CHR 0x0A, CHR 0x0B, CHR 0x0C, CHR 0x0D, CHR 0x1C, CHR 0x1D,
               CHR 0x1E, CHR 0x1F, CHR 0x20, CHR 0x85, CHR 0xA0]"

definition strip :: "string \<Rightarrow> string" where
  "strip s = rev (dropWhile is_space (rev (dropWhile is_space s)))"

text \<open>\<open>s.split(sep)\<close> for a separator of one character.\<close>

fun split :: "char \<Rightarrow> string \<Rightarrow> string list" where
  "split sep [] = [[]]"
| "split sep (c # cs) =
     (if c = sep then [] # split sep cs
      else (case split sep cs of [] \<Rightarrow> [[c]] | f # fs \<Rightarrow> (c # f) # fs))"

text \<open>
  A \<open>for line in file\<close> loop whose body updates one dictionary and may raise: the
  exception ends the loop.
\<close>

fun load_lines :: "('d \<Rightarrow> string \<Rightarrow> error + 'd) \<Rightarrow> 'd \<Rightarrow> string list \<Rightarrow> error + 'd" where
  "load_lines body d [] = Inr d"
| "load_lines body d (l # ls) =
     (case body d l of Inl e \<Rightarrow> Inl e | Inr d' \<Rightarrow> load_lines body d' ls)"

text \<open>
  The bodies of the three loops of \<open>load_data\<close>.  Unpacking a list of the wrong length
  into the names of the customer fields raises \<open>ValueError\<close>, as \<open>int\<close> and \<open>float\<close> do
  on a field that is not a number.  A \<open>CheckingAccount\<close> is built without a credit
  limit and gets the default \<open>0\<close>.
\<close>

definition load_customer_line ::
  "'a python \<Rightarrow> (string \<times> customer) list \<Rightarrow> string \<Rightarrow> error + (string \<times> customer) list" where
  "load_customer_line py cs line =
     (case split CHR '','' (strip line) of
        [cid, nm, ag, lg, pw] \<Rightarrow>
          (case int_of py ag of
             None \<Rightarrow> Inl ValueError
           | Some a \<Rightarrow>
               Inr (AList.update lg
                      \<lparr>customer_id = cid, name = nm, age = a, login = lg, password = pw\<rparr> cs))
      | _ \<Rightarrow> Inl ValueError)"

definition load_account_line ::
  "'a::zero python \<Rightarrow> (string \<times> 'a account) list \<Rightarrow> string \<Rightarrow> error + (string \<times> 'a account) list" where
  "load_account_line py accs line =
     (case split CHR '','' (strip line) of
        [aid, cid, account_type, bal] \<Rightarrow>
          (case float_of py bal of
             None \<Rightarrow> Inl ValueError
           | Some b \<Rightarrow> Inr (AList.update aid (CheckingAccount aid cid b 0) accs))
      | [aid, cid, account_type, bal, mw] \<Rightarrow>
          (case float_of py bal of
             None \<Rightarrow> Inl ValueError
           | Some b \<Rightarrow>
               (case int_of py mw of
                  None \<Rightarrow> Inl ValueError
                | Some m \<Rightarrow> Inr (AList.update aid (SavingsAccount aid cid b m) accs)))
      | _ \<Rightarrow> Inr accs)"

definition load_transaction_line ::
  "'a python \<Rightarrow> (string \<times> 'a transaction list) list \<Rightarrow> string \<Rightarrow>
     error + (string \<times> 'a transaction list) list" where
  "load_transaction_line py txs line =
     (case split CHR '','' (strip line) of
        [aid, tid, amount, ty, status] \<Rightarrow>
          (case float_of py amount of
             None \<Rightarrow> Inl ValueError
           | Some a \<Rightarrow> Inr (log_transaction aid (Tx4 tid a ty status) txs))
      | [aid, tid, rid, amount, ty, status] \<Rightarrow>
          (case float_of py amount of
             None \<Rightarrow> Inl ValueError
           | Some a \<Rightarrow> Inr (log_transaction aid (Tx5 tid rid a ty status) txs))
      | _ \<Rightarrow> Inr txs)"

text \<open>
  \<open>load_data\<close> fills the dictionaries of the system it is called on.  An exception
  leaves \<open>load_data\<close> and, uncaught, the program, so an error is the whole result.
\<close>

definition read_lines :: "string option \<Rightarrow> error + string list" where
  "read_lines f =
     (case f of None \<Rightarrow> Inl FileNotFoundError
      | Some content \<Rightarrow> Inr (file_lines (universal_newlines content)))"

definition load_data :: "'a::zero python \<Rightarrow> files \<Rightarrow> 'a bank_system \<Rightarrow> error + 'a bank_system" where
  "load_data py fs st =
     (case read_lines (customers_txt fs) of
        Inl e \<Rightarrow> Inl e
      | Inr ls1 \<Rightarrow>
     (case load_lines (load_customer_line py) (customers st) ls1 of
        Inl e \<Rightarrow> Inl e
      | Inr cs \<Rightarrow>
     (case read_lines (accounts_txt fs) of
        Inl e \<Rightarrow> Inl e
      | Inr ls2 \<Rightarrow>
     (case load_lines (load_account_line py) (accounts st) ls2 of
        Inl e \<Rightarrow> Inl e
      | Inr accs \<Rightarrow>
     (case read_lines (accountsTransactions_txt fs) of
        Inl e \<Rightarrow> Inl e
      | Inr ls3 \<Rightarrow>
     (case load_lines (load_transaction_line py) (transactions st) ls3 of
        Inl e \<Rightarrow> Inl e
      | Inr txs \<Rightarrow>
          Inr (st\<lparr>customers := cs, accounts := accs, transactions := txs\<rparr>)))))))"

subsection \<open>Writing the data files\<close>

definition account_line :: "'a python \<Rightarrow> 'a account \<Rightarrow> string" where
  "account_line py a =
     (case a of
        SavingsAccount aid cid b m \<Rightarrow>
          record_line [aid, cid, ''Savings'', str_of_float py b, str_int m]
      | CheckingAccount aid cid b l \<Rightarrow>
          record_line [aid, cid, ''Checking'', str_of_float py b])"

definition transaction_line :: "'a python \<Rightarrow> string \<Rightarrow> 'a transaction \<Rightarrow> string" where
  "transaction_line py aid t =
     (case t of
        Tx4 tid a ty status \<Rightarrow> record_line [aid, tid, str_of_float py a, ty, status]
      | Tx5 tid rid a ty status \<Rightarrow> record_line [aid, tid, rid, str_of_float py a, ty, status])"

definition save_data :: "'a python \<Rightarrow> 'a bank_system \<Rightarrow> files \<Rightarrow> files" where
  "save_data py st fs =
     fs\<lparr>customers_txt := Some (concat (map (\<lambda>kc. customer_line (snd kc)) (customers st))),
        accounts_txt := Some (concat (map (\<lambda>ka. account_line py (snd ka)) (accounts st))),
        accountsTransactions_txt :=
          Some (concat (map (\<lambda>kt. concat (map (transaction_line py (fst kt)) (snd kt)))
                  (transactions st)))\<rparr>"

subsection \<open>The ledger invariant\<close>

text \<open>A deposit record with status \<open>ABORTED\<close>, and a system whose ledger has none.\<close>

definition deposit_aborted :: "'a transaction \<Rightarrow> bool" where
  "deposit_aborted t \<longleftrightarrow> transaction_type t = ''deposit'' \<and> transaction_status t = ''ABORTED''"

definition no_aborted_deposit :: "'a bank_system \<Rightarrow> bool" where
  "no_aborted_deposit st \<longleftrightarrow>
     list_all (\<lambda>kt. list_all (\<lambda>t. \<not> deposit_aborted t) (snd kt)) (transactions st)"

subsection \<open>Systems that the file format can hold\<close>

text \<open>
  The files have no escaping, a customer line is unpacked into exactly five fields, and
  \<open>strip\<close> is applied to every line.  A text field can be written and read back only if
  it has no comma and no line break, and if, as the first field of a line, it does not
  begin with white space or, as the last one, does not end with it.  Numbers must come
  back from their text.  The credit limit of a checking account is not written at all,
  an empty transaction list leaves no line, and the loader keys every customer by its
  login and every account by its own account id.
\<close>

definition plain_field :: "string \<Rightarrow> bool" where
  "plain_field s \<longleftrightarrow> CHR '','' \<notin> set s \<and> CHR 0x0A \<notin> set s \<and> CHR 0x0D \<notin> set s"

definition no_leading_space :: "string \<Rightarrow> bool" where
  "no_leading_space s \<longleftrightarrow> (case s of [] \<Rightarrow> True | c # _ \<Rightarrow> \<not> is_space c)"

definition no_trailing_space :: "string \<Rightarrow> bool" where
  "no_trailing_space s \<longleftrightarrow> no_leading_space (rev s)"

text \<open>A character that may stand anywhere in a field.\<close>

definition field_char :: "char \<Rightarrow> bool" where
  "field_char c \<longleftrightarrow> c \<noteq> CHR '','' \<and> c \<noteq> CHR 0x0A \<and> c \<noteq> CHR 0x0D \<and> \<not> is_space c"

definition float_text_ok :: "'a python \<Rightarrow> 'a \<Rightarrow> bool" where
  "float_text_ok py x \<longleftrightarrow>
     float_of py (str_of_float py x) = Some x \<and> plain_field (str_of_float py x)"

definition storable_customer :: "'a python \<Rightarrow> string \<times> customer \<Rightarrow> bool" where
  "storable_customer py kc \<longleftrightarrow>
     fst kc = login (snd kc) \<and>
     plain_field (customer_id (snd kc)) \<and> no_leading_space (customer_id (snd kc)) \<and>
     plain_field (name (snd kc)) \<and> plain_field (login (snd kc)) \<and>
     plain_field (password (snd kc)) \<and> no_trailing_space (password (snd kc)) \<and>
     int_of py (str_int (age (snd kc))) = Some (age (snd kc))"

definition storable_account :: "'a::zero python \<Rightarrow> string \<times> 'a account \<Rightarrow> bool" where
  "storable_account py ka \<longleftrightarrow>
     (case snd ka of
        SavingsAccount aid cid b m \<Rightarrow>
          fst ka = aid \<and> plain_field aid \<and> no_leading_space aid \<and> plain_field cid \<and>
          float_text_ok py b \<and> int_of py (str_int m) = Some m
      | CheckingAccount aid cid b l \<Rightarrow>
          fst ka = aid \<and> plain_field aid \<and> no_leading_space aid \<and> plain_field cid \<and>
          float_text_ok py b \<and> no_trailing_space (str_of_float py b) \<and> l = 0)"

definition storable_transaction :: "'a python \<Rightarrow> 'a transaction \<Rightarrow> bool" where
  "storable_transaction py t \<longleftrightarrow>
     (case t of
        Tx4 tid a ty status \<Rightarrow>
          plain_field tid \<and> float_text_ok py a \<and> plain_field ty \<and>
          plain_field status \<and> no_trailing_space status
      | Tx5 tid rid a ty status \<Rightarrow>
          plain_field tid \<and> plain_field rid \<and> float_text_ok py a \<and> plain_field ty \<and>
          plain_field status \<and> no_trailing_space status)"

definition storable_transactions :: "'a python \<Rightarrow> string \<times> 'a transaction list \<Rightarrow> bool" where
  "storable_transactions py kt \<longleftrightarrow>
     plain_field (fst kt) \<and> no_leading_space (fst kt) \<and> snd kt \<noteq> [] \<and>
     list_all (storable_transaction py) (snd kt)"

definition storable :: "'a::zero python \<Rightarrow> 'a bank_system \<Rightarrow> bool" where
  "storable py st \<longleftrightarrow>
     distinct (map fst (customers st)) \<and> list_all (storable_customer py) (customers st) \<and>
     distinct (map fst (accounts st)) \<and> list_all (storable_account py) (accounts st) \<and>
     distinct (map fst (transactions st)) \<and>
     list_all (storable_transactions py) (transactions st)"

section \<open>Example states\<close>

text \<open>Concrete stores and systems on which the theorems below are instantiated.\<close>

definition savings_objects :: "(string, real) objects" where
  "savings_objects = (\<lambda>r. SavingsAccount r ''1'' 100 1)"

definition checking_objects :: "(string, real) objects" where
  "checking_objects = (\<lambda>r. CheckingAccount r ''1'' 100 50)"

text \<open>
  A stand-in for the library functions that knows a handful of literals, four customers
  and a system with two accounts and nobody logged in.
\<close>

definition example_python :: "real python" where
  "example_python =
     \<lparr>float_of = (\<lambda>s. if s = ''0.0'' then Some 0 else if s = ''30.0'' then Some 30
                     else if s = ''100.0'' then Some 100 else None),
      int_of = (\<lambda>s. if s = ''1'' then Some 1 else if s = ''0'' then Some 0
                     else if s = ''20'' then Some 20 else if s = ''14'' then Some 14
                     else if s = ''18'' then Some 18 else if s = ''13'' then Some 13 else None),
      str_of_float = (\<lambda>x. if x = 0 then ''0.0'' else if x = 30 then ''30.0''
                     else if x = 100 then ''100.0'' else ''nan''),
      sha256_hexdigest = (\<lambda>s. ''5e88'' @ s)\<rparr>"

definition alice :: customer where
  "alice = \<lparr>customer_id = ''1'', name = ''Alice'', age = 20, login = ''alice'', password = ''5e88pw''\<rparr>"

definition bob :: customer where
  "bob = \<lparr>customer_id = ''2'', name = ''Bob'', age = 14, login = ''bob'', password = ''5e88b''\<rparr>"

definition carol :: customer where
  "carol = \<lparr>customer_id = ''3'', name = ''Carol'', age = 18, login = ''carol'', password = ''5e88c''\<rparr>"

definition dave :: customer where
  "dave = \<lparr>customer_id = ''4'', name = ''Dave'', age = 13, login = ''dave'', password = ''5e88d''\<rparr>"

definition no_files :: files where
  "no_files = \<lparr>customers_txt = None, accounts_txt = None, accountsTransactions_txt = None\<rparr>"

definition example_system :: "real bank_system" where
  "example_system =
     \<lparr>customers = [(''alice'', alice), (''bob'', bob), (''carol'', carol), (''dave'', dave)],
      accounts = [(''1'', CheckingAccount ''1'' ''1'' 100 0), (''2'', SavingsAccount ''2'' ''1'' 0 1)],
      transactions = [(''1'', [Tx4 ''1'' 100 ''deposit'' ''COMPLETE''])],
      current_user = None,
      admin_password = ''admin''\<rparr>"


text \<open>A system with float balances, and one whose customer has a comma in the name.\<close>

definition stored_system :: "real bank_system" where
  "stored_system =
     \<lparr>customers = [(''alice'', alice), (''bob'', bob)],
      accounts = [(''1'', CheckingAccount ''1'' ''1'' 100 0), (''2'', SavingsAccount ''2'' ''2'' 30 1)],
      transactions = [(''1'', [Tx4 ''1'' 100 ''deposit'' ''COMPLETE'',
                               Tx5 ''2'' ''2'' 30 ''transfer'' ''COMPLETE''])],
      current_user = None,
      admin_password = ''admin''\<rparr>"

definition comma_system :: "real bank_system" where
  "comma_system =
     fst (run example_python (BankSystem, no_files) [CreateCustomer ''Doe, John'' 20 ''doe'' ''pw''])"

lemmas example_defs =
  example_system_def example_python_def alice_def bob_def carol_def dave_def no_files_def

section \<open>Properties of the account classes\<close>

lemma balance_set_balance [simp]: "balance (set_balance b a) = b"
  by (cases a) simp_all

lemma balance_set_monthly_withdrawals [simp]:
  "balance (set_monthly_withdrawals m a) = balance a"
  by (cases a) simp_all

lemma isSavings_set_balance [simp]: "isSavings (set_balance b a) = isSavings a"
  by (cases a) simp_all

lemma isSavings_set_monthly_withdrawals [simp]:
  "isSavings (set_monthly_withdrawals m a) = isSavings a"
  by (cases a) simp_all

lemma monthly_withdrawals_set_balance [simp]:
  "isSavings a \<Longrightarrow> monthly_withdrawals (set_balance b a) = monthly_withdrawals a"
  by (cases a) simp_all

lemma credit_limit_set_balance [simp]:
  "\<not> isSavings a \<Longrightarrow> credit_limit (set_balance b a) = credit_limit a"
  by (cases a) simp_all

lemma monthly_withdrawals_set [simp]:
  "isSavings a \<Longrightarrow> monthly_withdrawals (set_monthly_withdrawals m a) = m"
  by (cases a) simp_all

text \<open>Each method in closed form, by the class of the object it is called on.\<close>

lemma withdrawal_savings:
  "isSavings (h self) \<Longrightarrow>
   withdrawal h self amount =
     (if monthly_withdrawals (h self) > 0
      then (h(self := set_monthly_withdrawals (monthly_withdrawals (h self) - 1)
                        (set_balance (balance (h self) - amount) (h self))), True)
      else (h, False))"
  by (cases "h self") (simp_all add: withdrawal_def Let_def)

lemma withdrawal_checking:
  "\<not> isSavings (h self) \<Longrightarrow>
   withdrawal h self amount =
     (if balance (h self) + credit_limit (h self) \<ge> amount
      then (h(self := set_balance (balance (h self) - amount) (h self)), True)
      else (h, False))"
  by (cases "h self") (simp_all add: withdrawal_def Let_def)

lemma transfer_savings:
  "isSavings (h self) \<Longrightarrow>
   transfer h self amount r =
     (if monthly_withdrawals (h self) > 0
      then (let h1 = h(self := set_balance (balance (h self) - amount) (h self));
                h2 = h1(r := set_balance (balance (h1 r) + amount) (h1 r))
            in h2(self := set_monthly_withdrawals (monthly_withdrawals (h self) - 1) (h2 self)), True)
      else (h, False))"
  by (cases "h self") (auto simp add: transfer_def deposit_def Let_def)

lemma transfer_checking:
  "\<not> isSavings (h self) \<Longrightarrow>
   transfer h self amount r =
     (if balance (h self) + credit_limit (h self) \<ge> amount
      then (let h1 = h(self := set_balance (balance (h self) - amount) (h self))
            in h1(r := set_balance (balance (h1 r) + amount) (h1 r)), True)
      else (h, False))"
  by (cases "h self") (auto simp add: transfer_def deposit_def Let_def)

text \<open>
  Claim C1.  On a savings account, \<open>withdrawal\<close> returns true exactly when
  \<open>monthly_withdrawals\<close> is positive.  When it does, the balance has gone down by the
  amount and the counter by one; when it does not, the whole object store, and with it
  the balance and the counter, is as before.  The counter never goes up.  An outgoing
  \<open>transfer\<close> from a savings account has the same guard and the same decrement.
\<close>

theorem savings_withdrawal_counter:
  "isSavings (h self) \<Longrightarrow>
   (case withdrawal h self amount of (h', ok) \<Rightarrow>
      ok = (monthly_withdrawals (h self) > 0) \<and>
      monthly_withdrawals (h' self) \<le> monthly_withdrawals (h self) \<and>
      (ok \<longrightarrow> balance (h' self) = balance (h self) - amount \<and>
              monthly_withdrawals (h' self) = monthly_withdrawals (h self) - 1) \<and>
      (\<not> ok \<longrightarrow> h' = h)) \<and>
   (case transfer h self amount recipient of (h', ok) \<Rightarrow>
      ok = (monthly_withdrawals (h self) > 0) \<and>
      monthly_withdrawals (h' self) \<le> monthly_withdrawals (h self) \<and>
      (ok \<longrightarrow> monthly_withdrawals (h' self) = monthly_withdrawals (h self) - 1) \<and>
      (\<not> ok \<longrightarrow> h' = h))"
  by (cases "self = recipient") (auto simp add: withdrawal_savings transfer_savings Let_def)

text \<open>
  Claim C2, as amended.  On a checking account, \<open>withdrawal\<close> and \<open>transfer\<close> return
  true exactly when \<open>balance + credit_limit \<ge> amount\<close>; a failed call changes nothing;
  no call changes the credit limit of any checking account.  After a successful
  withdrawal, and after a successful transfer to another account, the balance is
  \<open>balance - amount\<close>.  After a successful transfer to the account itself the deposit
  has put the amount back: the balance is \<open>balance - amount + amount\<close>.
\<close>

theorem checking_withdrawal_transfer_guard:
  "\<not> isSavings (h self) \<Longrightarrow>
   (case withdrawal h self amount of (h', ok) \<Rightarrow>
      ok = (balance (h self) + credit_limit (h self) \<ge> amount) \<and>
      (ok \<longrightarrow> balance (h' self) = balance (h self) - amount) \<and>
      (\<not> ok \<longrightarrow> h' = h) \<and>
      (\<not> isSavings (h q) \<longrightarrow> credit_limit (h' q) = credit_limit (h q))) \<and>
   (case transfer h self amount recipient of (h', ok) \<Rightarrow>
      ok = (balance (h self) + credit_limit (h self) \<ge> amount) \<and>
      (ok \<and> recipient \<noteq> self \<longrightarrow> balance (h' self) = balance (h self) - amount) \<and>
      (ok \<and> recipient = self \<longrightarrow> balance (h' self) = balance (h self) - amount + amount) \<and>
      (\<not> ok \<longrightarrow> h' = h) \<and>
      (\<not> isSavings (h q) \<longrightarrow> credit_limit (h' q) = credit_limit (h q)))"
  by (cases "self = recipient"; cases "q = self"; cases "q = recipient")
     (auto simp add: withdrawal_checking transfer_checking Let_def)

text \<open>
  Claim C2 as it is stated fails for a transfer whose recipient is the source account:
  with balance 100 and credit limit 50, the transfer of 30 to itself succeeds and the
  balance is not 70.
\<close>

theorem checking_self_transfer_balance:
  "snd (transfer checking_objects ''1'' 30 ''1'') \<and>
   balance (fst (transfer checking_objects ''1'' 30 ''1'') ''1'')
     \<noteq> balance (checking_objects ''1'') - 30"
  by (simp add: transfer_def deposit_def checking_objects_def)

theorem checking_withdrawal_transfer_guard_witness:
  "\<not> isSavings (checking_objects ''1'') \<and>
   withdrawal checking_objects ''1'' 120 = (checking_objects(''1'' := CheckingAccount ''1'' ''1'' (-20) 50), True) \<and>
   withdrawal checking_objects ''1'' 151 = (checking_objects, False) \<and>
   snd (transfer checking_objects ''1'' 120 ''2'') \<and>
   balance (fst (transfer checking_objects ''1'' 120 ''2'') ''1'') = -20 \<and>
   balance (fst (transfer checking_objects ''1'' 120 ''1'') ''1'') = 100 \<and>
   transfer checking_objects ''1'' 151 ''2'' = (checking_objects, False)"
  using checking_withdrawal_transfer_guard [where h = checking_objects and self = "''1''" and amount = 120 and q = "''1''" and recipient = "''2''"]
    checking_withdrawal_transfer_guard [where h = checking_objects and self = "''1''" and amount = 151 and q = "''1''" and recipient = "''2''"]
    checking_withdrawal_transfer_guard [where h = checking_objects and self = "''1''" and amount = 120 and q = "''1''" and recipient = "''1''"]
  by (simp add: checking_objects_def withdrawal_def transfer_def deposit_def)

text \<open>
  Claim C3.  \<open>deposit\<close> returns true for every account of either class and every
  amount, and the new balance is the old one plus the amount; nothing else in the store
  changes.  The amount is arbitrary, so a negative one is accepted as well.
\<close>

theorem deposit_unconditional:
  "snd (deposit h self a) = True \<and>
   balance (fst (deposit h self a) self) = balance (h self) + a \<and>
   fst (deposit h self a) = h(self := set_balance (balance (h self) + a) (h self))"
  by (simp add: deposit_def)

text \<open>
  Claim C4, as amended.  A successful \<open>transfer\<close> to another account takes the amount
  off the source's balance and adds it to the recipient's.  A successful transfer to the
  source account itself debits and credits the same balance, which ends as
  \<open>balance - amount + amount\<close>.  A failed transfer changes no object at all.
\<close>

theorem transfer_debit_credit:
  "case transfer h self amount recipient of (h', ok) \<Rightarrow>
     (ok \<and> recipient \<noteq> self \<longrightarrow>
        balance (h' self) = balance (h self) - amount \<and>
        balance (h' recipient) = balance (h recipient) + amount) \<and>
     (ok \<and> recipient = self \<longrightarrow> balance (h' self) = balance (h self) - amount + amount) \<and>
     (\<not> ok \<longrightarrow> h' = h)"
  by (cases "isSavings (h self)")
     (auto simp add: transfer_savings transfer_checking Let_def)

text \<open>
  Claim C4 as it is stated fails when the recipient is the source account: a savings
  account with balance 100 transfers 30 to itself, the transfer succeeds, and the
  balance has neither gone down by 30 nor up by 30.
\<close>

theorem savings_self_transfer_balance:
  "snd (transfer savings_objects ''1'' 30 ''1'') \<and>
   balance (fst (transfer savings_objects ''1'' 30 ''1'') ''1'')
     \<noteq> balance (savings_objects ''1'') - 30 \<and>
   balance (fst (transfer savings_objects ''1'' 30 ''1'') ''1'')
     \<noteq> balance (savings_objects ''1'') + 30"
  by (simp add: transfer_def deposit_def savings_objects_def)

theorem transfer_debit_credit_witness:
  "transfer savings_objects ''1'' 30 ''2'' =
     (savings_objects(''1'' := SavingsAccount ''1'' ''1'' 70 0,
                      ''2'' := SavingsAccount ''2'' ''1'' 130 1), True) \<and>
   balance (fst (transfer savings_objects ''1'' 30 ''1'') ''1'') = 100 \<and>
   transfer checking_objects ''1'' 151 ''2'' = (checking_objects, False)"
  using transfer_debit_credit [where h = savings_objects and self = "''1''" and amount = 30 and recipient = "''2''"]
    transfer_debit_credit [where h = savings_objects and self = "''1''" and amount = 30 and recipient = "''1''"]
    transfer_debit_credit [where h = checking_objects and self = "''1''" and amount = 151 and recipient = "''2''"]
  by (auto simp add: savings_objects_def checking_objects_def transfer_def deposit_def)

theorem savings_withdrawal_counter_witness:
  "isSavings (savings_objects ''1'') \<and>
   withdrawal savings_objects ''1'' 30 =
     (savings_objects(''1'' := SavingsAccount ''1'' ''1'' 70 0), True) \<and>
   withdrawal (fst (withdrawal savings_objects ''1'' 30)) ''1'' 30 =
     (fst (withdrawal savings_objects ''1'' 30), False) \<and>
   snd (transfer savings_objects ''1'' 30 ''2'') \<and>
   monthly_withdrawals (fst (transfer savings_objects ''1'' 30 ''2'') ''1'') = 0"
  using savings_withdrawal_counter [where h = savings_objects and self = "''1''" and amount = 30 and recipient = "''2''"]
    savings_withdrawal_counter [where h = "fst (withdrawal savings_objects ''1'' 30)" and self = "''1''" and amount = 30 and recipient = "''2''"]
  by (simp add: savings_objects_def withdrawal_def transfer_def deposit_def)



section \<open>Properties of the bank system\<close>

lemma delete_account_any_session:
  "delete_account st aid =
     (if map_of (accounts st) aid = None then (Inl AccountIdNotFound, st)
      else (Inr (), st\<lparr>accounts := AList.delete aid (accounts st),
                        transactions := AList.delete aid (transactions st)\<rparr>))"
  by (auto simp add: delete_account_def Let_def map_of_eq_None_iff)

text \<open>
  Claim C7, as amended.  With nobody logged in, \<open>view_transactions\<close>,
  \<open>perform_operations\<close> and \<open>check_balance\<close> answer with the request to log in and
  leave the system as it is.  \<open>delete_account\<close> does not look at the session: logged
  out as well, it reports an unknown account id, or removes the account and its
  transaction list.
\<close>

theorem logged_out_rejected:
  "current_user st = None \<Longrightarrow>
     view_transactions st aid = (Inl PleaseLogin, st) \<and>
     perform_operations py st aid inp = (Inl PleaseLogin, st) \<and>
     check_balance st aid = (Inl PleaseLogin, st) \<and>
     delete_account st aid =
       (if map_of (accounts st) aid = None then (Inl AccountIdNotFound, st)
        else (Inr (), st\<lparr>accounts := AList.delete aid (accounts st),
                          transactions := AList.delete aid (transactions st)\<rparr>))"
  by (simp add: view_transactions_def perform_operations_def check_balance_def
        delete_account_any_session)

text \<open>
  Claim C7 as it is stated fails for \<open>delete_account\<close>: in the example system nobody
  is logged in, and deleting account 1 succeeds and removes the account and its
  transactions.
\<close>

theorem delete_account_logged_out:
  "current_user example_system = None \<and>
   fst (delete_account example_system ''1'') = Inr () \<and>
   accounts (snd (delete_account example_system ''1'')) = [(''2'', SavingsAccount ''2'' ''1'' 0 1)] \<and>
   transactions (snd (delete_account example_system ''1'')) = [] \<and>
   snd (delete_account example_system ''1'') \<noteq> example_system"
  by (simp add: delete_account_def example_system_def Let_def)

subsection \<open>Creating accounts\<close>

lemma find_customer_append:
  "find_customer (cs @ [kc]) cid =
     (if cid = customer_id (snd kc) then Some (snd kc) else find_customer cs cid)"
  by (simp add: find_customer_def)

lemma find_customer_Some:
  "find_customer cs cid = Some c \<Longrightarrow> c \<in> snd ` set cs \<and> customer_id c = cid"
  by (induction cs rule: rev_induct)
     (auto simp add: find_customer_append find_customer_def split: if_splits)

lemma find_customer_None:
  "find_customer cs cid = None \<longleftrightarrow> cid \<notin> (\<lambda>kc. customer_id (snd kc)) ` set cs"
  by (induction cs rule: rev_induct)
     (auto simp add: find_customer_append find_customer_def split: if_splits)

lemma find_customer_unique:
  "distinct (map (\<lambda>kc. customer_id (snd kc)) cs) \<Longrightarrow> (k, c) \<in> set cs \<Longrightarrow>
   find_customer cs (customer_id c) = Some c"
proof (induction cs rule: rev_induct)
  case Nil
  then show ?case by simp
next
  case (snoc kc cs)
  show ?case
  proof (cases "kc = (k, c)")
    case True
    then show ?thesis by (simp add: find_customer_append)
  next
    case False
    with snoc.prems have mem: "(k, c) \<in> set cs" by auto
    with snoc.prems have "customer_id (snd kc) \<noteq> customer_id c" by force
    moreover from snoc.prems have "distinct (map (\<lambda>kc. customer_id (snd kc)) cs)" by simp
    ultimately show ?thesis using snoc.IH mem by (simp add: find_customer_append)
  qed
qed





lemma create_account_rejected_unchanged:
  "fst (create_account st cid ty) = Inl e \<Longrightarrow> snd (create_account st cid ty) = st"
  by (auto simp add: create_account_def Let_def split: option.splits if_splits)

subsection \<open>The ledger of transactions\<close>

lemma get_transactions_log_same:
  "get_transactions (log_transaction aid t txs) aid = get_transactions txs aid @ [t]"
  by (simp add: get_transactions_def log_transaction_def update_conv')

lemma map_of_log_other:
  "k \<noteq> aid \<Longrightarrow> map_of (log_transaction aid t txs) k = map_of txs k"
  by (simp add: log_transaction_def update_conv')

lemma objects_of_present: "map_of d k = Some a \<Longrightarrow> objects_of d k = a"
  by (simp add: objects_of_def)

lemma snd_withdrawal:
  "snd (withdrawal h self amount) =
     (if isSavings (h self) then monthly_withdrawals (h self) > 0
      else balance (h self) + credit_limit (h self) \<ge> amount)"
  by (simp add: withdrawal_savings withdrawal_checking)

lemma snd_transfer:
  "snd (transfer h self amount r) =
     (if isSavings (h self) then monthly_withdrawals (h self) > 0
      else balance (h self) + credit_limit (h self) \<ge> amount)"
  by (simp add: transfer_savings transfer_checking)

lemma operations_deposit:
  "choice_input inp = ''1'' \<Longrightarrow> float_of py (amount_input inp) = Some amount \<Longrightarrow>
   operations py st aid tid inp =
     (Inr True,
      st\<lparr>accounts := store_objects (accounts st) (fst (deposit (objects_of (accounts st)) aid amount)),
         transactions := log_transaction aid (Tx4 tid amount ''deposit'' ''COMPLETE'') (transactions st)\<rparr>)"
  by (simp add: operations_def deposit_def)

lemma operations_withdrawal:
  "choice_input inp = ''2'' \<Longrightarrow> float_of py (amount_input inp) = Some amount \<Longrightarrow>
   operations py st aid tid inp =
     (Inr (snd (withdrawal (objects_of (accounts st)) aid amount)),
      st\<lparr>accounts := store_objects (accounts st) (fst (withdrawal (objects_of (accounts st)) aid amount)),
         transactions := log_transaction aid
           (Tx4 tid amount ''withdrawal''
              (if snd (withdrawal (objects_of (accounts st)) aid amount) then ''COMPLETE'' else ''ABORTED''))
           (transactions st)\<rparr>)"
  by (simp add: operations_def split: prod.splits)

lemma operations_transfer:
  "choice_input inp = ''3'' \<Longrightarrow> map_of (accounts st) (recipient_input inp) \<noteq> None \<Longrightarrow>
   float_of py (amount_input inp) = Some amount \<Longrightarrow>
   operations py st aid tid inp =
     (Inr (snd (transfer (objects_of (accounts st)) aid amount (recipient_input inp))),
      st\<lparr>accounts := store_objects (accounts st)
           (fst (transfer (objects_of (accounts st)) aid amount (recipient_input inp))),
         transactions := log_transaction aid
           (Tx5 tid (recipient_input inp) amount ''transfer''
              (if snd (transfer (objects_of (accounts st)) aid amount (recipient_input inp))
               then ''COMPLETE'' else ''ABORTED''))
           (transactions st)\<rparr>)"
  by (simp add: operations_def split: prod.splits)

lemma perform_operations_authorized:
  "current_user st = Some user \<Longrightarrow> map_of (accounts st) aid = Some account \<Longrightarrow>
   not_authorized st user account = Inr False \<Longrightarrow>
   perform_operations py st aid inp =
     operations py st aid (str_nat (length (get_transactions (transactions st) aid) + 1)) inp"
  by (simp add: perform_operations_def Let_def)

lemma operations_unknown_recipient:
  "choice_input inp = ''3'' \<Longrightarrow> map_of (accounts st) (recipient_input inp) = None \<Longrightarrow>
   operations py st aid tid inp = (Inl RecipientNotFound, st)"
  by (simp add: operations_def)

text \<open>
  Claim C5, as amended.  Somebody is logged in, the account id resolves, the session is
  authorized for the account, and the amount typed is one that \<open>float\<close> accepts.  For a
  deposit, a withdrawal, and a transfer whose recipient account id resolves, the
  transaction list of the account is the old list with exactly one record appended, no
  other account's list changes, and the record's status is \<open>COMPLETE\<close> when the method
  returned true and \<open>ABORTED\<close> when it returned false; the method returns true for a
  deposit, and otherwise exactly when the guard of the account's class holds.  For a
  transfer whose recipient account id is not found, \<open>perform_operations\<close> returns
  before it calls the method: it reports the unknown recipient and the system, with its
  transaction lists, is unchanged.
\<close>

theorem dispatched_operation_logged:
  assumes "current_user st = Some user"
    and "map_of (accounts st) aid = Some account"
    and "not_authorized st user account = Inr False"
    and "float_of py (amount_input inp) = Some amount"
  shows
    "(choice_input inp = ''1'' \<or> choice_input inp = ''2'' \<or>
      (choice_input inp = ''3'' \<and> map_of (accounts st) (recipient_input inp) \<noteq> None) \<longrightarrow>
      (case perform_operations py st aid inp of (res, st') \<Rightarrow>
         \<exists>ok t. res = Inr ok \<and>
           get_transactions (transactions st') aid = get_transactions (transactions st) aid @ [t] \<and>
           (\<forall>k. k \<noteq> aid \<longrightarrow> map_of (transactions st') k = map_of (transactions st) k) \<and>
           transaction_status t = (if ok then ''COMPLETE'' else ''ABORTED'') \<and>
           transaction_id t = str_nat (length (get_transactions (transactions st) aid) + 1) \<and>
           tx_amount t = amount \<and>
           transaction_type t =
             (if choice_input inp = ''1'' then ''deposit''
              else if choice_input inp = ''2'' then ''withdrawal'' else ''transfer'') \<and>
           ok = (choice_input inp = ''1'' \<or>
                 (if isSavings account then monthly_withdrawals account > 0
                  else balance account + credit_limit account \<ge> amount)))) \<and>
     (choice_input inp = ''3'' \<and> map_of (accounts st) (recipient_input inp) = None \<longrightarrow>
      perform_operations py st aid inp = (Inl RecipientNotFound, st))"
proof (intro conjI impI)
  note po = perform_operations_authorized [OF assms(1-3)]
  note obj = objects_of_present [OF assms(2)]
  {
    assume "choice_input inp = ''3'' \<and> map_of (accounts st) (recipient_input inp) = None"
    then show "perform_operations py st aid inp = (Inl RecipientNotFound, st)"
      by (simp add: po operations_unknown_recipient)
  }
  assume "choice_input inp = ''1'' \<or> choice_input inp = ''2'' \<or>
    (choice_input inp = ''3'' \<and> map_of (accounts st) (recipient_input inp) \<noteq> None)"
  then consider (d) "choice_input inp = ''1''" | (w) "choice_input inp = ''2''"
    | (t) "choice_input inp = ''3''" "map_of (accounts st) (recipient_input inp) \<noteq> None"
    by blast
  then show "case perform_operations py st aid inp of (res, st') \<Rightarrow>
         \<exists>ok t. res = Inr ok \<and>
           get_transactions (transactions st') aid = get_transactions (transactions st) aid @ [t] \<and>
           (\<forall>k. k \<noteq> aid \<longrightarrow> map_of (transactions st') k = map_of (transactions st) k) \<and>
           transaction_status t = (if ok then ''COMPLETE'' else ''ABORTED'') \<and>
           transaction_id t = str_nat (length (get_transactions (transactions st) aid) + 1) \<and>
           tx_amount t = amount \<and>
           transaction_type t =
             (if choice_input inp = ''1'' then ''deposit''
              else if choice_input inp = ''2'' then ''withdrawal'' else ''transfer'') \<and>
           ok = (choice_input inp = ''1'' \<or>
                 (if isSavings account then monthly_withdrawals account > 0
                  else balance account + credit_limit account \<ge> amount))"
  proof cases
    case d
    show ?thesis
      by (auto simp add: po operations_deposit [OF d assms(4)] get_transactions_log_same map_of_log_other d)
  next
    case w
    show ?thesis
      by (simp add: po operations_withdrawal [OF w assms(4)] get_transactions_log_same
            map_of_log_other w snd_withdrawal obj)
  next
    case t
    show ?thesis
      by (simp add: po operations_transfer [OF t assms(4)] get_transactions_log_same
            map_of_log_other t snd_transfer obj)
  qed
qed

text \<open>
  Claim C5 as it is stated fails for a transfer to an account id that does not exist:
  the administrator is logged in, account 1 resolves and is authorized, and the
  transfer of 30 to the unknown account 9 leaves the system as it was, with no record
  appended to the transactions of account 1.
\<close>

theorem unknown_recipient_not_logged:
  "current_user (snd (admin_login example_system ''admin'')) = Some ''admin'' \<and>
   map_of (accounts (snd (admin_login example_system ''admin''))) ''1''
     = Some (CheckingAccount ''1'' ''1'' 100 0) \<and>
   not_authorized (snd (admin_login example_system ''admin'')) ''admin''
     (CheckingAccount ''1'' ''1'' 100 0) = Inr False \<and>
   perform_operations example_python (snd (admin_login example_system ''admin'')) ''1''
     \<lparr>choice_input = ''3'', recipient_input = ''9'', amount_input = ''30.0''\<rparr>
   = (Inl RecipientNotFound, snd (admin_login example_system ''admin'')) \<and>
   get_transactions (transactions (snd (admin_login example_system ''admin''))) ''1''
     = [Tx4 ''1'' 100 ''deposit'' ''COMPLETE'']"
  by (simp add: example_defs admin_login_def not_authorized_def perform_operations_def
        operations_def get_transactions_def Let_def)

subsection \<open>No aborted deposit\<close>

lemma list_all_update:
  "list_all P xs \<Longrightarrow> P (k, v) \<Longrightarrow> list_all P (AList.update k v xs)"
  by (induction xs) auto

lemma list_all_delete: "list_all P xs \<Longrightarrow> list_all P (AList.delete k xs)"
  by (induction xs) auto

lemma list_all_get_transactions:
  "list_all (\<lambda>kt. list_all Q (snd kt)) txs \<Longrightarrow> list_all Q (get_transactions txs aid)"
proof (cases "map_of txs aid")
  case None
  then show ?thesis by (simp add: get_transactions_def)
next
  case (Some l)
  then have "(aid, l) \<in> set txs" by (rule map_of_SomeD)
  moreover assume "list_all (\<lambda>kt. list_all Q (snd kt)) txs"
  ultimately have "list_all Q l" by (auto simp add: list_all_iff)
  with Some show ?thesis by (simp add: get_transactions_def)
qed

lemma list_all_log_transaction:
  "list_all (\<lambda>kt. list_all Q (snd kt)) txs \<Longrightarrow> Q t \<Longrightarrow>
   list_all (\<lambda>kt. list_all Q (snd kt)) (log_transaction aid t txs)"
  unfolding log_transaction_def
  by (rule list_all_update) (simp_all add: list_all_get_transactions)

lemma operations_no_aborted_deposit:
  "no_aborted_deposit st \<Longrightarrow> no_aborted_deposit (snd (operations py st aid tid inp))"
  by (auto simp add: operations_def no_aborted_deposit_def deposit_def deposit_aborted_def
        intro!: list_all_log_transaction split: option.splits prod.splits)

lemma perform_operations_no_aborted_deposit:
  "no_aborted_deposit st \<Longrightarrow> no_aborted_deposit (snd (perform_operations py st aid inp))"
  by (auto simp add: perform_operations_def Let_def operations_no_aborted_deposit
        split: option.splits sum.splits bool.splits)

lemma delete_account_no_aborted_deposit:
  "no_aborted_deposit st \<Longrightarrow> no_aborted_deposit (snd (delete_account st aid))"
  by (auto simp add: delete_account_def Let_def no_aborted_deposit_def intro: list_all_delete)

lemma step_no_aborted_deposit:
  "no_aborted_deposit (fst sf) \<Longrightarrow> no_aborted_deposit (fst (step py sf req))"
proof (cases sf)
  case (Pair st fs)
  assume inv: "no_aborted_deposit (fst sf)"
  with Pair have st: "no_aborted_deposit st" by simp
  show ?thesis
  proof (cases req)
    case (PerformOperations aid inp)
    with Pair st show ?thesis by (simp add: perform_operations_no_aborted_deposit)
  next
    case (DeleteAccount aid)
    with Pair st show ?thesis by (simp add: delete_account_no_aborted_deposit)
  next
    case (Login lg pw)
    with Pair st show ?thesis
      by (auto simp add: bank_login_def no_aborted_deposit_def split: option.splits)
  next
    case (AdminLogin pw)
    with Pair st show ?thesis by (auto simp add: admin_login_def no_aborted_deposit_def)
  next
    case Logout
    with Pair st show ?thesis by (simp add: logout_def no_aborted_deposit_def)
  next
    case (CreateCustomer nm ag lg pw)
    with Pair st show ?thesis by (simp add: create_customer_def Let_def no_aborted_deposit_def)
  next
    case (CreateAccount cid ty)
    with Pair st show ?thesis
      by (auto simp add: create_account_def Let_def no_aborted_deposit_def split: option.splits)
  next
    case (ViewTransactions aid)
    with Pair st show ?thesis
      by (auto simp add: view_transactions_def split: option.splits sum.splits bool.splits)
  next
    case (CheckBalance aid)
    with Pair st show ?thesis
      by (auto simp add: check_balance_def split: option.splits sum.splits bool.splits)
  qed
qed

lemma run_no_aborted_deposit:
  "no_aborted_deposit (fst sf) \<Longrightarrow> no_aborted_deposit (fst (run py sf reqs))"
  unfolding run_def
  by (induction reqs arbitrary: sf) (simp_all add: step_no_aborted_deposit)

text \<open>
  Claim C10.  \<open>deposit\<close> returns true unconditionally, so \<open>perform_operations\<close> never
  takes the branch that records an aborted deposit: after any sequence of requests to a
  new \<open>BankSystem\<close>, and to any system whose ledger had no such record, no transaction
  of type \<open>deposit\<close> has the status \<open>ABORTED\<close>.
\<close>

theorem deposit_never_aborted:
  "no_aborted_deposit (fst (run py (BankSystem, fs) reqs)) \<and>
   (no_aborted_deposit st \<longrightarrow> no_aborted_deposit (fst (run py (st, fs) reqs)))"
proof -
  have "no_aborted_deposit (BankSystem :: 'a bank_system)"
    by (simp add: no_aborted_deposit_def BankSystem_def)
  then show ?thesis
    using run_no_aborted_deposit [of "(BankSystem, fs)" py reqs]
      run_no_aborted_deposit [of "(st, fs)" py reqs]
    by simp
qed

theorem logged_out_rejected_witness:
  "current_user example_system = None \<and>
   view_transactions example_system ''1'' = (Inl PleaseLogin, example_system) \<and>
   perform_operations example_python example_system ''1''
     \<lparr>choice_input = ''1'', recipient_input = [], amount_input = ''30.0''\<rparr>
     = (Inl PleaseLogin, example_system) \<and>
   check_balance example_system ''1'' = (Inl PleaseLogin, example_system)"
  using logged_out_rejected [of example_system "''1''" example_python
      "\<lparr>choice_input = ''1'', recipient_input = [], amount_input = ''30.0''\<rparr>"]
  by (simp add: example_system_def)


theorem dispatched_operation_logged_witness:
  "current_user (snd (admin_login example_system ''admin'')) = Some ''admin'' \<and>
   not_authorized (snd (admin_login example_system ''admin'')) ''admin''
     (CheckingAccount ''1'' ''1'' 100 0) = Inr False \<and>
   perform_operations example_python (snd (admin_login example_system ''admin'')) ''1''
     \<lparr>choice_input = ''2'', recipient_input = [], amount_input = ''30.0''\<rparr>
   = (Inr True,
      (snd (admin_login example_system ''admin''))
        \<lparr>accounts := [(''1'', CheckingAccount ''1'' ''1'' 70 0), (''2'', SavingsAccount ''2'' ''1'' 0 1)],
         transactions := [(''1'', [Tx4 ''1'' 100 ''deposit'' ''COMPLETE'',
                                   Tx4 ''2'' 30 ''withdrawal'' ''COMPLETE''])]\<rparr>) \<and>
   perform_operations example_python (snd (admin_login example_system ''admin'')) ''1''
     \<lparr>choice_input = ''3'', recipient_input = ''7'', amount_input = ''30.0''\<rparr>
   = (Inl RecipientNotFound, snd (admin_login example_system ''admin''))"
  using dispatched_operation_logged [of "snd (admin_login example_system ''admin'')" "''admin''"
      "''1''" "CheckingAccount ''1'' ''1'' 100 0" example_python
      "\<lparr>choice_input = ''2'', recipient_input = [], amount_input = ''30.0''\<rparr>" 30]
    dispatched_operation_logged [of "snd (admin_login example_system ''admin'')" "''admin''"
      "''1''" "CheckingAccount ''1'' ''1'' 100 0" example_python
      "\<lparr>choice_input = ''3'', recipient_input = ''7'', amount_input = ''30.0''\<rparr>" 30]
  by (simp add: example_defs admin_login_def not_authorized_def perform_operations_def
        operations_def withdrawal_def objects_of_def store_objects_def log_transaction_def
        get_transactions_def str_nat.simps digit_char_def Let_def)

theorem deposit_never_aborted_witness:
  "transactions (fst (run example_python (BankSystem, no_files)
      [CreateCustomer ''Alice'' 20 ''alice'' ''pw'', AdminLogin ''admin'',
       CreateAccount ''1'' ''Checking'',
       PerformOperations ''1'' \<lparr>choice_input = ''1'', recipient_input = [], amount_input = ''100.0''\<rparr>]))
     = [(''1'', [Tx4 ''1'' 100 ''deposit'' ''COMPLETE''])] \<and>
   no_aborted_deposit (fst (run example_python (BankSystem, no_files)
      [CreateCustomer ''Alice'' 20 ''alice'' ''pw'', AdminLogin ''admin'',
       CreateAccount ''1'' ''Checking'',
       PerformOperations ''1'' \<lparr>choice_input = ''1'', recipient_input = [], amount_input = ''100.0''\<rparr>]))"
  using deposit_never_aborted [of example_python no_files
      "[CreateCustomer ''Alice'' 20 ''alice'' ''pw'', AdminLogin ''admin'',
        CreateAccount ''1'' ''Checking'',
        PerformOperations ''1'' \<lparr>choice_input = ''1'', recipient_input = [], amount_input = ''100.0''\<rparr>]"
      BankSystem]
  by (simp add: run_def BankSystem_def example_defs create_customer_def admin_login_def
        create_account_def find_customer_def perform_operations_def not_authorized_def
        operations_def deposit_def objects_of_def store_objects_def log_transaction_def
        get_transactions_def str_nat.simps digit_char_def Let_def)


section \<open>Properties of the data files\<close>

subsection \<open>Lines of the accounts file\<close>

lemma load_account_line_4:
  "split CHR '','' (strip line) = [aid, cid, label, bal] \<Longrightarrow>
   load_account_line py accs line =
     (case float_of py bal of
        None \<Rightarrow> Inl ValueError
      | Some b \<Rightarrow> Inr (AList.update aid (CheckingAccount aid cid b 0) accs))"
  by (simp add: load_account_line_def)

lemma load_account_line_5:
  "split CHR '','' (strip line) = [aid, cid, label, bal, mw] \<Longrightarrow>
   load_account_line py accs line =
     (case float_of py bal of
        None \<Rightarrow> Inl ValueError
      | Some b \<Rightarrow>
          (case int_of py mw of
             None \<Rightarrow> Inl ValueError
           | Some m \<Rightarrow> Inr (AList.update aid (SavingsAccount aid cid b m) accs)))"
  by (simp add: load_account_line_def)

lemma load_account_line_other:
  "length (split CHR '','' (strip line)) \<noteq> 4 \<Longrightarrow> length (split CHR '','' (strip line)) \<noteq> 5 \<Longrightarrow>
   load_account_line py accs line = Inr accs"
  by (auto simp add: load_account_line_def split: list.splits)

lemma length_4: "length xs = 4 \<Longrightarrow> xs = [xs ! 0, xs ! 1, xs ! 2, xs ! 3]"
  by (auto simp add: numeral_eq_Suc length_Suc_conv)

lemma length_5: "length xs = 5 \<Longrightarrow> xs = [xs ! 0, xs ! 1, xs ! 2, xs ! 3, xs ! 4]"
  by (auto simp add: numeral_eq_Suc length_Suc_conv)

text \<open>
  Claim C9, as amended.  The number of fields of a line of the accounts file decides
  what \<open>load_data\<close> does with it, and the field with the type label is not looked at.
  A line of four fields stores a \<open>CheckingAccount\<close> with the default credit limit, if
  \<open>float\<close> accepts the balance field; a line of five fields stores a \<open>SavingsAccount\<close>,
  if \<open>float\<close> accepts the balance field and \<open>int\<close> the counter field.  When a number
  is not accepted the line raises \<open>ValueError\<close> and no account is built.  A line with
  any other number of fields is skipped.
\<close>

theorem field_count_selects_variant:
  assumes "split CHR '','' (strip line) = cols"
  shows
    "(length cols = 4 \<longrightarrow>
        load_account_line py accs line =
          (case float_of py (cols ! 3) of
             None \<Rightarrow> Inl ValueError
           | Some b \<Rightarrow>
               Inr (AList.update (cols ! 0) (CheckingAccount (cols ! 0) (cols ! 1) b 0) accs))) \<and>
     (length cols = 5 \<longrightarrow>
        load_account_line py accs line =
          (case float_of py (cols ! 3) of
             None \<Rightarrow> Inl ValueError
           | Some b \<Rightarrow>
               (case int_of py (cols ! 4) of
                  None \<Rightarrow> Inl ValueError
                | Some m \<Rightarrow>
                    Inr (AList.update (cols ! 0) (SavingsAccount (cols ! 0) (cols ! 1) b m) accs)))) \<and>
     (length cols \<noteq> 4 \<and> length cols \<noteq> 5 \<longrightarrow> load_account_line py accs line = Inr accs)"
proof (intro conjI impI)
  assume "length cols = 4"
  then have "cols = [cols ! 0, cols ! 1, cols ! 2, cols ! 3]" by (rule length_4)
  with assms have "split CHR '','' (strip line) = [cols ! 0, cols ! 1, cols ! 2, cols ! 3]"
    by simp
  then show "load_account_line py accs line =
          (case float_of py (cols ! 3) of
             None \<Rightarrow> Inl ValueError
           | Some b \<Rightarrow>
               Inr (AList.update (cols ! 0) (CheckingAccount (cols ! 0) (cols ! 1) b 0) accs))"
    by (rule load_account_line_4)
next
  assume "length cols = 5"
  then have "cols = [cols ! 0, cols ! 1, cols ! 2, cols ! 3, cols ! 4]" by (rule length_5)
  with assms
  have "split CHR '','' (strip line) = [cols ! 0, cols ! 1, cols ! 2, cols ! 3, cols ! 4]"
    by simp
  then show "load_account_line py accs line =
          (case float_of py (cols ! 3) of
             None \<Rightarrow> Inl ValueError
           | Some b \<Rightarrow>
               (case int_of py (cols ! 4) of
                  None \<Rightarrow> Inl ValueError
                | Some m \<Rightarrow>
                    Inr (AList.update (cols ! 0) (SavingsAccount (cols ! 0) (cols ! 1) b m) accs)))"
    by (rule load_account_line_5)
next
  assume "length cols \<noteq> 4 \<and> length cols \<noteq> 5"
  with assms show "load_account_line py accs line = Inr accs"
    by (simp add: load_account_line_other)
qed

text \<open>
  Claim C9 as it is stated fails for a line of four fields whose balance is not a
  number: it produces no \<open>CheckingAccount\<close> but the \<open>ValueError\<close> of \<open>float\<close>.
\<close>

theorem unparsable_balance_no_account:
  "length (split CHR '','' (strip ''1,1,Checking,abc'')) = 4 \<and>
   load_account_line example_python [] ''1,1,Checking,abc'' = Inl ValueError"
  by (simp add: load_account_line_def strip_def is_space_def example_python_def)

theorem field_count_selects_variant_witness:
  "split CHR '','' (strip (''7,1,Savings,100.0'' @ [CHR 0x0A])) = [''7'', ''1'', ''Savings'', ''100.0''] \<and>
   load_account_line example_python [] (''7,1,Savings,100.0'' @ [CHR 0x0A])
     = Inr [(''7'', CheckingAccount ''7'' ''1'' 100 0)] \<and>
   split CHR '','' (strip (''8,1,Checking,30.0,1'' @ [CHR 0x0A]))
     = [''8'', ''1'', ''Checking'', ''30.0'', ''1''] \<and>
   load_account_line example_python [] (''8,1,Checking,30.0,1'' @ [CHR 0x0A])
     = Inr [(''8'', SavingsAccount ''8'' ''1'' 30 1)] \<and>
   load_account_line example_python [] (''8,1,Checking'' @ [CHR 0x0A]) = Inr []"
  using field_count_selects_variant [of "''7,1,Savings,100.0'' @ [CHR 0x0A]"
      "[''7'', ''1'', ''Savings'', ''100.0'']" example_python "[]"]
    field_count_selects_variant [of "''8,1,Checking,30.0,1'' @ [CHR 0x0A]"
      "[''8'', ''1'', ''Checking'', ''30.0'', ''1'']" example_python "[]"]
    field_count_selects_variant [of "''8,1,Checking'' @ [CHR 0x0A]"
      "[''8'', ''1'', ''Checking'']" example_python "[]"]
  by (simp add: strip_def is_space_def example_python_def)


subsection \<open>Writing and reading back\<close>

text \<open>Splitting what was joined, stripping a written line, and the lines of a written file.\<close>

lemma split_no_sep: "sep \<notin> set s \<Longrightarrow> split sep s = [s]"
  by (induction s) auto

lemma split_field: "sep \<notin> set f \<Longrightarrow> split sep (f @ sep # rest) = f # split sep rest"
  by (induction f) auto

lemma join_fields_Cons2: "join_fields (f # g # rest) = f @ CHR '','' # join_fields (g # rest)"
  by (simp add: join_fields_def)

lemma join_fields_single: "join_fields [f] = f"
  by (simp add: join_fields_def)

lemma join_fields_Nil: "join_fields [] = []"
  by (simp add: join_fields_def)

lemma split_join_fields:
  "fs \<noteq> [] \<Longrightarrow> \<forall>f\<in>set fs. CHR '','' \<notin> set f \<Longrightarrow> split CHR '','' (join_fields fs) = fs"
proof (induction fs rule: induct_list012)
  case 1
  then show ?case by simp
next
  case (2 f)
  then show ?case by (simp add: join_fields_single split_no_sep)
next
  case (3 f g rest)
  then show ?case by (simp add: join_fields_Cons2 split_field)
qed

lemma strip_line:
  "no_leading_space l \<Longrightarrow> no_trailing_space l \<Longrightarrow> strip (l @ [CHR 0x0A]) = l"
proof (cases l)
  case Nil
  then show ?thesis by (simp add: strip_def is_space_def)
next
  case (Cons c cs)
  assume lead: "no_leading_space l" and trail: "no_trailing_space l"
  from lead Cons have 1: "dropWhile is_space (l @ [CHR 0x0A]) = l @ [CHR 0x0A]"
    by (simp add: no_leading_space_def)
  from Cons have "rev l \<noteq> []" by simp
  then obtain d ds where r: "rev l = d # ds" by (cases "rev l") auto
  with trail have "\<not> is_space d" by (simp add: no_trailing_space_def no_leading_space_def)
  with r have "dropWhile is_space (CHR 0x0A # rev l) = rev l"
    by (simp add: is_space_def)
  with 1 show ?thesis by (simp add: strip_def)
qed

lemma universal_newlines_id: "CHR 0x0D \<notin> set s \<Longrightarrow> universal_newlines s = s"
  by (induction s rule: universal_newlines.induct) auto

lemma file_lines_line:
  "CHR 0x0A \<notin> set l \<Longrightarrow> file_lines (l @ CHR 0x0A # rest) = (l @ [CHR 0x0A]) # file_lines rest"
  by (induction l) auto

lemma file_lines_concat:
  "\<forall>l\<in>set ls. CHR 0x0A \<notin> set l \<Longrightarrow>
   file_lines (concat (map (\<lambda>l. l @ [CHR 0x0A]) ls)) = map (\<lambda>l. l @ [CHR 0x0A]) ls"
  by (induction ls) (simp_all add: file_lines_line)

lemma load_lines_append:
  "load_lines body d (xs @ ys) =
     (case load_lines body d xs of Inl e \<Rightarrow> Inl e | Inr d' \<Rightarrow> load_lines body d' ys)"
  by (induction xs arbitrary: d) (auto split: sum.splits)

lemma load_lines_map:
  "\<forall>x\<in>set xs. \<forall>d. body d (line x) = Inr (upd d x) \<Longrightarrow>
   load_lines body d (map line xs) = Inr (foldl upd d xs)"
  by (induction xs arbitrary: d) auto

lemma update_fresh: "k \<notin> fst ` set d \<Longrightarrow> AList.update k v d = d @ [(k, v)]"
  by (induction d) auto

lemma foldl_update_distinct:
  "distinct (map fst (d @ xs)) \<Longrightarrow>
   foldl (\<lambda>d kv. AList.update (fst kv) (snd kv) d) d xs = d @ xs"
proof (induction xs arbitrary: d)
  case Nil
  then show ?case by simp
next
  case (Cons kv xs)
  from Cons.prems have fresh: "fst kv \<notin> fst ` set d" by auto
  from Cons.prems have "distinct (map fst ((d @ [kv]) @ xs))" by simp
  from Cons.IH [OF this] fresh show ?case by (simp add: update_fresh)
qed

lemma set_join_fields: "set (join_fields fs) \<subseteq> insert CHR '','' (\<Union> (set ` set fs))"
proof (induction fs rule: induct_list012)
  case 1
  then show ?case by (simp add: join_fields_Nil)
next
  case (2 f)
  then show ?case by (auto simp add: join_fields_single)
next
  case (3 f g rest)
  then show ?case by (auto simp add: join_fields_Cons2)
qed

lemma join_fields_no_newline:
  assumes "\<forall>f\<in>set fs. plain_field f"
  shows "CHR 0x0A \<notin> set (join_fields fs)" and "CHR 0x0D \<notin> set (join_fields fs)"
  using assms set_join_fields [of fs] by (auto simp add: plain_field_def)

lemma comma_not_space: "\<not> is_space CHR '',''"
  by (simp add: is_space_def)

lemma no_leading_space_join:
  "no_leading_space f \<Longrightarrow> no_leading_space (join_fields (f # g # rest))"
  by (cases f) (simp_all add: join_fields_Cons2 no_leading_space_def comma_not_space)

lemma join_fields_snoc: "fs \<noteq> [] \<Longrightarrow> join_fields (fs @ [l]) = join_fields fs @ CHR '','' # l"
  by (induction fs rule: induct_list012) (simp_all add: join_fields_single join_fields_Cons2)

lemma no_trailing_space_join:
  "fs \<noteq> [] \<Longrightarrow> no_trailing_space l \<Longrightarrow> no_trailing_space (join_fields (fs @ [l]))"
  by (cases "rev l")
     (simp_all add: join_fields_snoc no_trailing_space_def no_leading_space_def comma_not_space)

lemma read_row:
  assumes "\<forall>f\<in>set (f # fs @ [l]). plain_field f"
    and "no_leading_space f" and "no_trailing_space l"
  shows "split CHR '','' (strip (record_line (f # fs @ [l]))) = f # fs @ [l]"
proof -
  have lead: "no_leading_space (join_fields (f # fs @ [l]))"
    using assms(2) by (cases fs) (simp_all add: no_leading_space_join)
  have trail: "no_trailing_space (join_fields (f # fs @ [l]))"
    using no_trailing_space_join [of "f # fs" l] assms(3) by simp
  have "strip (record_line (f # fs @ [l])) = join_fields (f # fs @ [l])"
    unfolding record_line_def using lead trail by (rule strip_line)
  moreover have "split CHR '','' (join_fields (f # fs @ [l])) = f # fs @ [l]"
    using assms(1) by (intro split_join_fields) (auto simp add: plain_field_def)
  ultimately show ?thesis by simp
qed

lemma read_rows:
  assumes "\<forall>x\<in>set xs. \<forall>f\<in>set (row x). plain_field f"
  shows "file_lines (universal_newlines (concat (map (\<lambda>x. record_line (row x)) xs)))
           = map (\<lambda>x. record_line (row x)) xs"
proof -
  let ?texts = "map (\<lambda>x. join_fields (row x)) xs"
  have whole: "concat (map (\<lambda>x. record_line (row x)) xs) = concat (map (\<lambda>l. l @ [CHR 0x0A]) ?texts)"
    by (simp add: record_line_def comp_def)
  have nl: "\<forall>l\<in>set ?texts. CHR 0x0A \<notin> set l"
    using assms by (auto simp add: join_fields_no_newline)
  have "CHR 0x0D \<notin> set (concat (map (\<lambda>l. l @ [CHR 0x0A]) ?texts))"
    using assms by (auto simp add: join_fields_no_newline)
  then have "universal_newlines (concat (map (\<lambda>l. l @ [CHR 0x0A]) ?texts))
               = concat (map (\<lambda>l. l @ [CHR 0x0A]) ?texts)"
    by (rule universal_newlines_id)
  with file_lines_concat [OF nl] whole show ?thesis
    by (simp add: record_line_def comp_def)
qed

text \<open>The text of an integer consists of digits and a sign.\<close>

lemma digit_char_digit: "d < 10 \<Longrightarrow> digit_char d \<in> set ''0123456789''"
  unfolding digit_char_def by (rule nth_mem) simp

lemma str_nat_digits: "set (str_nat n) \<subseteq> set ''0123456789'' \<and> str_nat n \<noteq> []"
proof (induction n rule: str_nat.induct)
  case (1 n)
  have eq: "str_nat n =
      (if n < 10 then [digit_char n] else str_nat (n div 10) @ [digit_char (n mod 10)])"
    by (rule str_nat.simps)
  show ?case
  proof (cases "n < 10")
    case True
    with eq have "str_nat n = [digit_char n]" by simp
    with digit_char_digit [OF True] show ?thesis by simp
  next
    case False
    with eq have e: "str_nat n = str_nat (n div 10) @ [digit_char (n mod 10)]" by simp
    have "n mod 10 < 10" by simp
    then have "digit_char (n mod 10) \<in> set ''0123456789''" by (rule digit_char_digit)
    moreover from 1 False have "set (str_nat (n div 10)) \<subseteq> set ''0123456789''" by simp
    ultimately show ?thesis unfolding e by simp
  qed
qed

lemma digits_field_char: "\<forall>c\<in>set ''-0123456789''. field_char c"
  by (simp add: field_char_def is_space_def)

lemma str_nat_field_char: "c \<in> set (str_nat n) \<Longrightarrow> field_char c"
proof -
  assume "c \<in> set (str_nat n)"
  with str_nat_digits [of n] have "c \<in> set ''0123456789''" by blast
  then have "c \<in> set ''-0123456789''" by simp
  with digits_field_char show ?thesis by blast
qed

lemma minus_field_char: "field_char CHR ''-''"
  by (simp add: field_char_def is_space_def)

lemma str_int_field_char: "c \<in> set (str_int i) \<Longrightarrow> field_char c"
  by (cases "i < 0") (auto simp add: str_int_def minus_field_char str_nat_field_char)

lemma str_int_nonempty: "str_int i \<noteq> []"
  using str_nat_digits [of "nat i"] by (simp add: str_int_def)

lemma plain_field_str_int: "plain_field (str_int i)"
  unfolding plain_field_def using str_int_field_char [of _ i]
  by (auto simp add: field_char_def)

lemma no_trailing_space_str_int: "no_trailing_space (str_int i)"
proof (cases "rev (str_int i)")
  case Nil
  then show ?thesis by (simp add: no_trailing_space_def no_leading_space_def)
next
  case (Cons d ds)
  then have "d \<in> set (rev (str_int i))" by simp
  then have "d \<in> set (str_int i)" by simp
  then have "field_char d" by (rule str_int_field_char)
  with Cons show ?thesis by (simp add: no_trailing_space_def no_leading_space_def field_char_def)
qed

text \<open>The three files, each read back into the dictionary it was written from.\<close>

lemma customer_eta:
  "\<lparr>customer_id = customer_id c, name = name c, age = age c, login = login c,
     password = password c\<rparr> = (c::customer)"
  by (cases c) simp

lemma customer_line_row:
  "customer_line c =
     record_line (customer_id c # [name c, str_int (age c), login c] @ [password c])"
  by (simp add: customer_line_def)

lemma load_customer_line_stored:
  assumes "storable_customer py kc"
  shows "load_customer_line py d (customer_line (snd kc)) = Inr (AList.update (fst kc) (snd kc) d)"
proof -
  let ?c = "snd kc"
  from assms have plain: "\<forall>f\<in>set (customer_id ?c # [name ?c, str_int (age ?c), login ?c] @ [password ?c]). plain_field f"
    by (simp add: storable_customer_def plain_field_str_int)
  from assms have lead: "no_leading_space (customer_id ?c)"
    and trail: "no_trailing_space (password ?c)"
    and num: "int_of py (str_int (age ?c)) = Some (age ?c)"
    and key: "fst kc = login ?c"
    by (simp_all add: storable_customer_def)
  have "split CHR '','' (strip (customer_line ?c)) =
          customer_id ?c # [name ?c, str_int (age ?c), login ?c] @ [password ?c]"
    unfolding customer_line_row using plain lead trail by (rule read_row)
  then show ?thesis
    by (simp add: load_customer_line_def num key customer_eta)
qed

lemma load_customers:
  assumes "distinct (map fst cs)" and "list_all (storable_customer py) cs"
  shows "load_lines (load_customer_line py) []
           (file_lines (universal_newlines (concat (map (\<lambda>kc. customer_line (snd kc)) cs))))
         = Inr cs"
proof -
  let ?row = "\<lambda>kc::string \<times> customer.
    customer_id (snd kc) # [name (snd kc), str_int (age (snd kc)), login (snd kc)] @ [password (snd kc)]"
  have lines: "(\<lambda>kc. customer_line (snd kc)) = (\<lambda>kc. record_line (?row kc))"
    by (simp add: customer_line_row)
  have "\<forall>kc\<in>set cs. \<forall>f\<in>set (?row kc). plain_field f"
    using assms(2) by (auto simp add: list_all_iff storable_customer_def plain_field_str_int)
  then have "file_lines (universal_newlines (concat (map (\<lambda>kc. record_line (?row kc)) cs)))
               = map (\<lambda>kc. record_line (?row kc)) cs"
    by (rule read_rows)
  then have read: "file_lines (universal_newlines (concat (map (\<lambda>kc. customer_line (snd kc)) cs)))
               = map (\<lambda>kc. customer_line (snd kc)) cs"
    unfolding lines .
  have "\<forall>kc\<in>set cs. \<forall>d. load_customer_line py d (customer_line (snd kc))
          = Inr (AList.update (fst kc) (snd kc) d)"
    using assms(2) by (auto simp add: list_all_iff load_customer_line_stored)
  then have "load_lines (load_customer_line py) [] (map (\<lambda>kc. customer_line (snd kc)) cs)
               = Inr (foldl (\<lambda>d kc. AList.update (fst kc) (snd kc) d) [] cs)"
    by (rule load_lines_map)
  moreover have "foldl (\<lambda>d kc. AList.update (fst kc) (snd kc) d) [] cs = [] @ cs"
    using assms(1) by (intro foldl_update_distinct) simp
  ultimately show ?thesis using read by simp
qed

lemma plain_field_labels: "plain_field ''Savings''" "plain_field ''Checking''"
  by (simp_all add: plain_field_def)

lemma load_account_line_stored:
  assumes "storable_account py ka"
  shows "load_account_line py d (account_line py (snd ka)) = Inr (AList.update (fst ka) (snd ka) d)"
proof (cases "snd ka")
  case (SavingsAccount aid cid b m)
  with assms have plain: "\<forall>f\<in>set (aid # [cid, ''Savings'', str_of_float py b] @ [str_int m]). plain_field f"
    by (simp add: storable_account_def float_text_ok_def plain_field_str_int plain_field_labels)
  from assms SavingsAccount have lead: "no_leading_space aid"
    and num: "float_of py (str_of_float py b) = Some b" "int_of py (str_int m) = Some m"
    and key: "fst ka = aid"
    by (simp_all add: storable_account_def float_text_ok_def)
  have "split CHR '','' (strip (record_line (aid # [cid, ''Savings'', str_of_float py b] @ [str_int m])))
          = aid # [cid, ''Savings'', str_of_float py b] @ [str_int m]"
    using plain lead no_trailing_space_str_int by (rule read_row)
  with SavingsAccount show ?thesis
    by (simp add: load_account_line_def account_line_def num key)
next
  case (CheckingAccount aid cid b l)
  with assms have plain: "\<forall>f\<in>set (aid # [cid, ''Checking''] @ [str_of_float py b]). plain_field f"
    by (simp add: storable_account_def float_text_ok_def plain_field_labels)
  from assms CheckingAccount have lead: "no_leading_space aid"
    and trail: "no_trailing_space (str_of_float py b)"
    and num: "float_of py (str_of_float py b) = Some b"
    and key: "fst ka = aid" and lim: "l = 0"
    by (simp_all add: storable_account_def float_text_ok_def)
  have "split CHR '','' (strip (record_line (aid # [cid, ''Checking''] @ [str_of_float py b])))
          = aid # [cid, ''Checking''] @ [str_of_float py b]"
    using plain lead trail by (rule read_row)
  with CheckingAccount show ?thesis
    by (simp add: load_account_line_def account_line_def num key lim)
qed

lemma account_line_plain:
  assumes "storable_account py ka"
  shows "\<exists>fs. account_line py (snd ka) = record_line fs \<and> (\<forall>f\<in>set fs. plain_field f)"
proof (cases "snd ka")
  case (SavingsAccount aid cid b m)
  with assms have "\<forall>f\<in>set [aid, cid, ''Savings'', str_of_float py b, str_int m]. plain_field f"
    by (simp add: storable_account_def float_text_ok_def plain_field_str_int plain_field_labels)
  with SavingsAccount show ?thesis by (auto simp add: account_line_def)
next
  case (CheckingAccount aid cid b l)
  with assms have "\<forall>f\<in>set [aid, cid, ''Checking'', str_of_float py b]. plain_field f"
    by (simp add: storable_account_def float_text_ok_def plain_field_labels)
  with CheckingAccount show ?thesis by (auto simp add: account_line_def)
qed

lemma file_lines_records:
  "\<forall>x\<in>set xs. \<exists>t. line x = t @ [CHR 0x0A] \<and> CHR 0x0A \<notin> set t \<Longrightarrow>
   file_lines (concat (map line xs)) = map line xs"
proof (induction xs)
  case Nil
  then show ?case by simp
next
  case (Cons x xs)
  then obtain t where t: "line x = t @ [CHR 0x0A]" "CHR 0x0A \<notin> set t" by auto
  from Cons have "file_lines (concat (map line xs)) = map line xs" by simp
  with t show ?case by (simp add: file_lines_line)
qed

lemma read_record_lines:
  assumes "\<forall>x\<in>set xs. \<exists>fs. line x = record_line fs \<and> (\<forall>f\<in>set fs. plain_field f)"
  shows "file_lines (universal_newlines (concat (map line xs))) = map line xs"
proof -
  have texts: "\<forall>x\<in>set xs. \<exists>t. line x = t @ [CHR 0x0A] \<and> CHR 0x0A \<notin> set t \<and> CHR 0x0D \<notin> set t"
  proof
    fix x assume "x \<in> set xs"
    with assms obtain fs where fs: "line x = record_line fs" "\<forall>f\<in>set fs. plain_field f" by blast
    from fs(2) have "CHR 0x0A \<notin> set (join_fields fs)" "CHR 0x0D \<notin> set (join_fields fs)"
      by (rule join_fields_no_newline)+
    with fs(1) show "\<exists>t. line x = t @ [CHR 0x0A] \<and> CHR 0x0A \<notin> set t \<and> CHR 0x0D \<notin> set t"
      unfolding record_line_def by blast
  qed
  have "CHR 0x0D \<notin> set (concat (map line xs))"
  proof
    assume "CHR 0x0D \<in> set (concat (map line xs))"
    then obtain x where x: "x \<in> set xs" "CHR 0x0D \<in> set (line x)" by auto
    with texts obtain t where "line x = t @ [CHR 0x0A]" "CHR 0x0D \<notin> set t" by blast
    with x(2) show False by simp
  qed
  then have "universal_newlines (concat (map line xs)) = concat (map line xs)"
    by (rule universal_newlines_id)
  moreover from texts have "file_lines (concat (map line xs)) = map line xs"
    by (intro file_lines_records) blast
  ultimately show ?thesis by simp
qed

lemma load_accounts:
  assumes "distinct (map fst accs)" and "list_all (storable_account py) accs"
  shows "load_lines (load_account_line py) []
           (file_lines (universal_newlines (concat (map (\<lambda>ka. account_line py (snd ka)) accs))))
         = Inr accs"
proof -
  have "\<forall>ka\<in>set accs. \<exists>fs. account_line py (snd ka) = record_line fs \<and> (\<forall>f\<in>set fs. plain_field f)"
    using assms(2) by (auto simp add: list_all_iff intro: account_line_plain)
  then have read: "file_lines (universal_newlines (concat (map (\<lambda>ka. account_line py (snd ka)) accs)))
               = map (\<lambda>ka. account_line py (snd ka)) accs"
    by (rule read_record_lines)
  have "\<forall>ka\<in>set accs. \<forall>d. load_account_line py d (account_line py (snd ka))
          = Inr (AList.update (fst ka) (snd ka) d)"
    using assms(2) by (auto simp add: list_all_iff load_account_line_stored)
  then have "load_lines (load_account_line py) [] (map (\<lambda>ka. account_line py (snd ka)) accs)
               = Inr (foldl (\<lambda>d ka. AList.update (fst ka) (snd ka) d) [] accs)"
    by (rule load_lines_map)
  moreover have "foldl (\<lambda>d ka. AList.update (fst ka) (snd ka) d) [] accs = [] @ accs"
    using assms(1) by (intro foldl_update_distinct) simp
  ultimately show ?thesis using read by simp
qed

lemma map_of_fresh: "k \<notin> fst ` set d \<Longrightarrow> map_of d k = None"
  by (simp add: map_of_eq_None_iff)

lemma update_last: "k \<notin> fst ` set d \<Longrightarrow> AList.update k v (d @ [(k, w)]) = d @ [(k, v)]"
  by (induction d) auto

lemma log_transaction_fresh:
  "k \<notin> fst ` set d \<Longrightarrow> log_transaction k t d = d @ [(k, [t])]"
  by (simp add: log_transaction_def get_transactions_def map_of_fresh update_fresh)

lemma log_transaction_last:
  "k \<notin> fst ` set d \<Longrightarrow> log_transaction k t (d @ [(k, pre)]) = d @ [(k, pre @ [t])]"
  by (simp add: log_transaction_def get_transactions_def map_of_fresh update_last map_add_def)

lemma foldl_log_group:
  "k \<notin> fst ` set d \<Longrightarrow>
   foldl (\<lambda>d t. log_transaction k t d) (d @ [(k, pre)]) ts = d @ [(k, pre @ ts)]"
  by (induction ts arbitrary: pre) (simp_all add: log_transaction_last)

lemma foldl_log_new:
  "k \<notin> fst ` set d \<Longrightarrow> ts \<noteq> [] \<Longrightarrow>
   foldl (\<lambda>d t. log_transaction k t d) d ts = d @ [(k, ts)]"
proof (cases ts)
  case Nil
  assume "ts \<noteq> []"
  with Nil show ?thesis by simp
next
  case (Cons t rest)
  assume "k \<notin> fst ` set d"
  then show ?thesis
    using foldl_log_group [of k d "[t]" rest] Cons by (simp add: log_transaction_fresh)
qed

lemma regroup_transactions:
  "distinct (map fst (d @ txs)) \<Longrightarrow> \<forall>kt\<in>set txs. snd kt \<noteq> [] \<Longrightarrow>
   foldl (\<lambda>d p. log_transaction (fst p) (snd p) d) d
     (concat (map (\<lambda>kt. map (Pair (fst kt)) (snd kt)) txs)) = d @ txs"
proof (induction txs arbitrary: d)
  case Nil
  then show ?case by simp
next
  case (Cons kt txs)
  from Cons.prems have fresh: "fst kt \<notin> fst ` set d" by auto
  from Cons.prems have ne: "snd kt \<noteq> []" by simp
  have group: "foldl (\<lambda>d p. log_transaction (fst p) (snd p) d) d (map (Pair (fst kt)) (snd kt))
                 = d @ [kt]"
    using foldl_log_new [OF fresh ne] by (simp add: foldl_map)
  from Cons.prems have "distinct (map fst ((d @ [kt]) @ txs))" by simp
  moreover from Cons.prems have "\<forall>kt\<in>set txs. snd kt \<noteq> []" by simp
  ultimately have "foldl (\<lambda>d p. log_transaction (fst p) (snd p) d) (d @ [kt])
     (concat (map (\<lambda>kt. map (Pair (fst kt)) (snd kt)) txs)) = (d @ [kt]) @ txs"
    by (rule Cons.IH)
  with group show ?case by simp
qed

lemma load_transaction_line_stored:
  assumes "plain_field aid" and "no_leading_space aid" and "storable_transaction py t"
  shows "load_transaction_line py d (transaction_line py aid t) = Inr (log_transaction aid t d)"
proof (cases t)
  case (Tx4 tid a ty status)
  with assms have plain: "\<forall>f\<in>set (aid # [tid, str_of_float py a, ty] @ [status]). plain_field f"
    by (simp add: storable_transaction_def float_text_ok_def)
  from assms Tx4 have trail: "no_trailing_space status"
    and num: "float_of py (str_of_float py a) = Some a"
    by (simp_all add: storable_transaction_def float_text_ok_def)
  have "split CHR '','' (strip (record_line (aid # [tid, str_of_float py a, ty] @ [status])))
          = aid # [tid, str_of_float py a, ty] @ [status]"
    using plain assms(2) trail by (rule read_row)
  with Tx4 show ?thesis
    by (simp add: load_transaction_line_def transaction_line_def num)
next
  case (Tx5 tid rid a ty status)
  with assms have plain: "\<forall>f\<in>set (aid # [tid, rid, str_of_float py a, ty] @ [status]). plain_field f"
    by (simp add: storable_transaction_def float_text_ok_def)
  from assms Tx5 have trail: "no_trailing_space status"
    and num: "float_of py (str_of_float py a) = Some a"
    by (simp_all add: storable_transaction_def float_text_ok_def)
  have "split CHR '','' (strip (record_line (aid # [tid, rid, str_of_float py a, ty] @ [status])))
          = aid # [tid, rid, str_of_float py a, ty] @ [status]"
    using plain assms(2) trail by (rule read_row)
  with Tx5 show ?thesis
    by (simp add: load_transaction_line_def transaction_line_def num)
qed

lemma transaction_line_plain:
  assumes "plain_field aid" and "storable_transaction py t"
  shows "\<exists>fs. transaction_line py aid t = record_line fs \<and> (\<forall>f\<in>set fs. plain_field f)"
proof (cases t)
  case (Tx4 tid a ty status)
  with assms have "\<forall>f\<in>set [aid, tid, str_of_float py a, ty, status]. plain_field f"
    by (simp add: storable_transaction_def float_text_ok_def)
  with Tx4 show ?thesis by (auto simp add: transaction_line_def)
next
  case (Tx5 tid rid a ty status)
  with assms have "\<forall>f\<in>set [aid, tid, rid, str_of_float py a, ty, status]. plain_field f"
    by (simp add: storable_transaction_def float_text_ok_def)
  with Tx5 show ?thesis by (auto simp add: transaction_line_def)
qed

lemma transactions_text_flat:
  "concat (map (\<lambda>kt. concat (map (transaction_line py (fst kt)) (snd kt))) txs) =
   concat (map (\<lambda>p. transaction_line py (fst p) (snd p))
     (concat (map (\<lambda>kt. map (Pair (fst kt)) (snd kt)) txs)))"
  by (induction txs) (simp_all add: comp_def)

lemma load_transactions:
  assumes "distinct (map fst txs)" and "list_all (storable_transactions py) txs"
  shows "load_lines (load_transaction_line py) []
           (file_lines (universal_newlines
              (concat (map (\<lambda>kt. concat (map (transaction_line py (fst kt)) (snd kt))) txs))))
         = Inr txs"
proof -
  let ?flat = "concat (map (\<lambda>kt. map (Pair (fst kt)) (snd kt)) txs)"
  let ?line = "\<lambda>p. transaction_line py (fst p) (snd p)"
  have each: "\<forall>p\<in>set ?flat. plain_field (fst p) \<and> no_leading_space (fst p) \<and>
                 storable_transaction py (snd p)"
    using assms(2) by (auto simp add: list_all_iff storable_transactions_def)
  then have "\<forall>p\<in>set ?flat. \<exists>fs. ?line p = record_line fs \<and> (\<forall>f\<in>set fs. plain_field f)"
    by (blast intro: transaction_line_plain)
  then have read: "file_lines (universal_newlines (concat (map ?line ?flat))) = map ?line ?flat"
    by (rule read_record_lines)
  from each have "\<forall>p\<in>set ?flat. \<forall>d. load_transaction_line py d (?line p)
          = Inr (log_transaction (fst p) (snd p) d)"
    by (blast intro: load_transaction_line_stored)
  then have "load_lines (load_transaction_line py) [] (map ?line ?flat)
               = Inr (foldl (\<lambda>d p. log_transaction (fst p) (snd p) d) [] ?flat)"
    by (rule load_lines_map)
  moreover have "foldl (\<lambda>d p. log_transaction (fst p) (snd p) d) [] ?flat = [] @ txs"
    using assms by (intro regroup_transactions) (auto simp add: list_all_iff storable_transactions_def)
  ultimately show ?thesis using read by (simp add: transactions_text_flat)
qed

text \<open>
  Claim C6, as amended.  Let the system be one that the file format can hold
  (\<open>storable\<close>): the keys of each dictionary are distinct, every customer is stored
  under its login and every account under its own account id; no text field contains
  a comma or a line break, no first field of a line begins and no last field ends with
  white space; every number is given back by \<open>float\<close> or \<open>int\<close> from its text; every
  checking account has the default credit limit; and no transaction list is empty.
  Then \<open>load_data\<close>, called on a new \<open>BankSystem\<close> with the files that \<open>save_data\<close>
  wrote, succeeds, and the customers, the accounts with their class and its fields, and
  the transaction lists in their order are those of the system saved.
\<close>

theorem save_load_round_trip:
  assumes "storable py st"
  shows "load_data py (save_data py st fs) BankSystem =
           Inr (BankSystem\<lparr>customers := customers st, accounts := accounts st,
                           transactions := transactions st\<rparr>)"
proof -
  from assms have c: "distinct (map fst (customers st))" "list_all (storable_customer py) (customers st)"
    and a: "distinct (map fst (accounts st))" "list_all (storable_account py) (accounts st)"
    and t: "distinct (map fst (transactions st))" "list_all (storable_transactions py) (transactions st)"
    by (simp_all add: storable_def)
  show ?thesis
    by (simp add: load_data_def save_data_def read_lines_def BankSystem_def
          load_customers [OF c] load_accounts [OF a] load_transactions [OF t])
qed

lemma stored_system_storable: "storable example_python stored_system"
  by (simp add: storable_def stored_system_def storable_customer_def storable_account_def
        storable_transactions_def storable_transaction_def float_text_ok_def plain_field_def
        no_leading_space_def no_trailing_space_def is_space_def example_defs
        str_int_def str_nat.simps digit_char_def)

theorem save_load_round_trip_witness:
  "storable example_python stored_system \<and>
   load_data example_python (save_data example_python stored_system no_files) BankSystem
     = Inr stored_system"
proof -
  have s: "storable example_python stored_system"
    by (rule stored_system_storable)
  have "BankSystem\<lparr>customers := customers stored_system, accounts := accounts stored_system,
          transactions := transactions stored_system\<rparr> = stored_system"
    by (simp add: stored_system_def BankSystem_def)
  with save_load_round_trip [OF s, of no_files] s show ?thesis by simp
qed

text \<open>
  Claim C6 as it is stated fails for a customer whose name contains a comma, which
  \<open>create_customer\<close> accepts: the line written for the customer has six fields, and
  reading the file back raises \<open>ValueError\<close> at the unpacking of the line.
\<close>

theorem comma_in_name_not_loaded:
  "customers comma_system =
     [(''doe'', \<lparr>customer_id = ''1'', name = ''Doe, John'', age = 20, login = ''doe'',
                 password = ''5e88pw''\<rparr>)] \<and>
   customers_txt (save_data example_python comma_system no_files)
     = Some (''1,Doe, John,20,doe,5e88pw'' @ [CHR 0x0A]) \<and>
   load_data example_python (save_data example_python comma_system no_files) BankSystem
     = Inl ValueError"
  by (simp add: comma_system_def run_def BankSystem_def example_defs create_customer_def
        save_data_def customer_line_def record_line_def join_fields_def str_int_def
        str_nat.simps digit_char_def Let_def load_data_def read_lines_def
        load_customer_line_def strip_def is_space_def)

end
